theory Spec2Isabelle
  imports Complex_Main "HOL-Library.Log_Nat"
begin

section \<open>YamDb: the views of the review site (api/views.py)\<close>

text \<open>
  The module api/views.py holds two function views (\<open>send_confirmation_code\<close>,
  \<open>get_jwt_token\<close>), the class view \<open>APIUser\<close> and six viewsets. The views are
  embedded as functions over explicit tables (lists of rows). What the views import from
  libraries or from modules that are not part of views.py (the password hasher, the token
  class, the serializers, the settings constant) is a parameter of the embedding, collected
  in the record \<open>deps\<close>; random values and the clock are inputs as well.
\<close>

subsection \<open>Rows, requests, responses\<close>

type_synonym data = "(string \<times> string) list"

record user =
  user_id :: nat
  username :: string
  email :: string
  confirmation_code :: string

datatype request_user = AnonymousUser | Authenticated nat

record request =
  req_user :: request_user
  req_data :: data

datatype body = Str string | Dict data

datatype response = Response body nat

datatype exn =
    ValidationError data
  | Http404
  | MultipleObjectsReturned
  | KeyError string
  | AssertionError
  | ValueError
  | NotAuthenticated
  | PermissionDenied

record mail =
  subject :: string
  message :: string
  from_email :: string
  recipient_list :: "string list"

text \<open>
  What Python's \<open>uuid.uuid4()\<close> and the hasher's random salt (\<open>salt=None\<close>) produce
  in one call of \<open>send_confirmation_code\<close>; the UUID is held in its string form, the form
  that is hashed and put into the mail.
\<close>

record rand =
  uuid4 :: string
  salt :: string

record deps =
  SendCodeSerializer :: "data \<Rightarrow> data + data"
  CheckConfirmationCodeSerializer :: "data \<Rightarrow> data + data"
  CheckConfirmationCodeSerializer_data :: "data \<Rightarrow> data"
  UserSerializer_validate :: "user \<Rightarrow> data \<Rightarrow> data + data"
  UserSerializer_update :: "user \<Rightarrow> data \<Rightarrow> user"
  UserSerializer_data :: "user \<Rightarrow> data"
  make_password :: "string \<Rightarrow> string \<Rightarrow> string"
  check_password :: "string \<Rightarrow> string \<Rightarrow> bool"
  AccessToken_for_user :: "user \<Rightarrow> nat \<Rightarrow> string"
  EMAIL_ADMIN :: string

fun status :: "response \<Rightarrow> nat" where
  "status (Response b s) = s"

text \<open>
  The status code a client sees: a returned response carries its own; the framework's
  exception handler answers a \<open>ValidationError\<close> with 400, an \<open>Http404\<close> with 404, a
  \<open>NotAuthenticated\<close> with 401 and a \<open>PermissionDenied\<close> with 403, and any other
  exception ends as a server error.
\<close>

fun http_status :: "exn + response \<Rightarrow> nat" where
  "http_status (Inr r) = status r"
| "http_status (Inl (ValidationError e)) = 400"
| "http_status (Inl Http404) = 404"
| "http_status (Inl NotAuthenticated) = 401"
| "http_status (Inl PermissionDenied) = 403"
| "http_status (Inl _) = 500"

subsection \<open>Serializer objects\<close>

text \<open>
  A serializer object caches the outcome of its validation: \<open>is_valid\<close> runs the
  validation only when the object has no \<open>_validated_data\<close> attribute yet, and answers
  \<open>not bool(self._errors)\<close>. A validation that raises leaves \<open>_validated_data = {}\<close>.
\<close>

record serializer =
  initial_data :: data
  validated_data_attr :: "data option"
  errors_attr :: data

definition new_serializer :: "data \<Rightarrow> serializer" where
  "new_serializer d = \<lparr>initial_data = d, validated_data_attr = None, errors_attr = []\<rparr>"

definition is_valid :: "(data \<Rightarrow> data + data) \<Rightarrow> serializer \<Rightarrow> bool \<times> serializer" where
  "is_valid run_validation s =
     (let s' = (case validated_data_attr s of
                  None \<Rightarrow>
                    (case run_validation (initial_data s) of
                       Inl detail \<Rightarrow> s\<lparr>validated_data_attr := Some [], errors_attr := detail\<rparr>
                     | Inr v \<Rightarrow> s\<lparr>validated_data_attr := Some v, errors_attr := []\<rparr>)
                | Some _ \<Rightarrow> s)
      in (errors_attr s' = [], s'))"

definition is_valid_raise :: "(data \<Rightarrow> data + data) \<Rightarrow> serializer \<Rightarrow> exn + serializer" where
  "is_valid_raise run_validation s =
     (case is_valid run_validation s of
        (ok, s') \<Rightarrow> if ok then Inr s' else Inl (ValidationError (errors_attr s')))"

definition validated_data :: "serializer \<Rightarrow> exn + data" where
  "validated_data s =
     (case validated_data_attr s of None \<Rightarrow> Inl AssertionError | Some v \<Rightarrow> Inr v)"

definition getitem :: "data \<Rightarrow> string \<Rightarrow> exn + string" where
  "getitem d k = (case map_of d k of None \<Rightarrow> Inl (KeyError k) | Some v \<Rightarrow> Inr v)"

subsection \<open>Queries on the user table\<close>

definition get_object_or_404 :: "'a list \<Rightarrow> ('a \<Rightarrow> bool) \<Rightarrow> exn + 'a" where
  "get_object_or_404 queryset P =
     (case filter P queryset of
        [] \<Rightarrow> Inl Http404
      | [x] \<Rightarrow> Inr x
      | _ \<Rightarrow> Inl MultipleObjectsReturned)"

definition exists_email :: "user list \<Rightarrow> string \<Rightarrow> bool" where
  "exists_email db e = (filter (\<lambda>u. email u = e) db \<noteq> [])"

definition fresh_id :: "user list \<Rightarrow> nat" where
  "fresh_id db = Suc (foldr max (map user_id db) 0)"

text \<open>
  Modelled from the spec: \<open>User.objects.create_user\<close>; the user model and its manager
  live in api/models.py, which is not among the sources. The spec's branch is
  "exists/create": a user row with the given email is added to the table. The new row
  gets an unused id; its other columns are empty.
\<close>

definition create_user :: "user list \<Rightarrow> string \<Rightarrow> user list" where
  "create_user db e =
     db @ [\<lparr>user_id = fresh_id db, username = [], email = e, confirmation_code = []\<rparr>]"

definition update_confirmation_code :: "user list \<Rightarrow> string \<Rightarrow> string \<Rightarrow> user list" where
  "update_confirmation_code db e h =
     map (\<lambda>u. if email u = e then u\<lparr>confirmation_code := h\<rparr> else u) db"

subsection \<open>send_confirmation_code\<close>

definition send_confirmation_code ::
  "deps \<Rightarrow> rand \<Rightarrow> user list \<Rightarrow> request \<Rightarrow> (exn + response) \<times> user list \<times> mail list" where
  "send_confirmation_code d rnd db request =
     (case is_valid_raise (SendCodeSerializer d) (new_serializer (req_data request)) of
        Inl exc \<Rightarrow> (Inl exc, db, [])
      | Inr serializer \<Rightarrow>
          (case validated_data serializer of
             Inl exc \<Rightarrow> (Inl exc, db, [])
           | Inr vd \<Rightarrow>
               (case getitem vd ''email'' of
                  Inl exc \<Rightarrow> (Inl exc, db, [])
                | Inr addr \<Rightarrow>
                    (case is_valid (SendCodeSerializer d) serializer of
                       (ok, serializer') \<Rightarrow>
                         if ok then
                           (let code = uuid4 rnd;
                                found = exists_email db addr;
                                db1 = (if \<not> found then create_user db addr else db);
                                db2 = update_confirmation_code db1 addr
                                        (make_password d code (salt rnd));
                                mail_subject = ''Confirmation code on Yamdb.ru'';
                                mail_message = ''Your confirmation code: '' @ code;
                                sent = \<lparr>subject = mail_subject, message = mail_message,
                                        from_email = ''Yamdb.ru <'' @ EMAIL_ADMIN d @ ''>'',
                                        recipient_list = [addr]\<rparr>
                            in (Inr (Response
                                      (Str (''Code was sent to '' @ addr @ '', please check''))
                                      200),
                                db2, [sent]))
                         else
                           (Inr (Response (Dict (errors_attr serializer')) 400), db, [])))))"

subsection \<open>get_jwt_token\<close>

text \<open>
  The view reads the table and writes nothing; it returns the table as it received it.
  \<open>now\<close> is the clock the token class reads when it builds the token.
\<close>

definition get_jwt_token ::
  "deps \<Rightarrow> nat \<Rightarrow> user list \<Rightarrow> request \<Rightarrow> (exn + response) \<times> user list" where
  "get_jwt_token d now db request =
     (case is_valid (CheckConfirmationCodeSerializer d) (new_serializer (req_data request)) of
        (ok, serializer) \<Rightarrow>
          if ok then
            (case validated_data serializer of
               Inl exc \<Rightarrow> (Inl exc, db)
             | Inr vd \<Rightarrow>
                 (case getitem vd ''email'' of
                    Inl exc \<Rightarrow> (Inl exc, db)
                  | Inr addr \<Rightarrow>
                      (case getitem (CheckConfirmationCodeSerializer_data d vd) ''confirmation_code'' of
                         Inl exc \<Rightarrow> (Inl exc, db)
                       | Inr code \<Rightarrow>
                           (case get_object_or_404 db (\<lambda>u. email u = addr) of
                              Inl exc \<Rightarrow> (Inl exc, db)
                            | Inr usr \<Rightarrow>
                                if check_password d code (confirmation_code usr) then
                                  (Inr (Response
                                         (Dict [(''token'', AccessToken_for_user d usr now)])
                                         200), db)
                                else
                                  (Inr (Response
                                         (Dict [(''confirmation_code'',
                                                 ''Wrong confirmation code'')])
                                         400), db)))))
          else (Inr (Response (Dict (errors_attr serializer)) 400), db))"

subsection \<open>APIUser: the /me endpoints\<close>

fun is_authenticated :: "request_user \<Rightarrow> bool" where
  "is_authenticated AnonymousUser = False"
| "is_authenticated (Authenticated uid) = True"

fun request_user_id :: "request_user \<Rightarrow> nat option" where
  "request_user_id AnonymousUser = None"
| "request_user_id (Authenticated uid) = Some uid"

text \<open>
  \<open>serializer.save()\<close> on a serializer built with an instance writes the updated
  instance back: the row with the instance's primary key is replaced, and a row is
  inserted when the table has none with that key.
\<close>

definition save_user :: "user list \<Rightarrow> user \<Rightarrow> user list" where
  "save_user db usr =
     (if filter (\<lambda>u. user_id u = user_id usr) db = [] then db @ [usr]
      else map (\<lambda>u. if user_id u = user_id usr then usr else u) db)"

definition APIUser_get :: "deps \<Rightarrow> user list \<Rightarrow> request \<Rightarrow> exn + response" where
  "APIUser_get d db request =
     (if is_authenticated (req_user request) then
        (case get_object_or_404 db (\<lambda>u. Some (user_id u) = request_user_id (req_user request)) of
           Inl exc \<Rightarrow> Inl exc
         | Inr usr \<Rightarrow> Inr (Response (Dict (UserSerializer_data d usr)) 200))
      else Inr (Response (Str ''You are not authenticated'') 401))"

definition APIUser_patch ::
  "deps \<Rightarrow> user list \<Rightarrow> request \<Rightarrow> (exn + response) \<times> user list" where
  "APIUser_patch d db request =
     (if is_authenticated (req_user request) then
        (case get_object_or_404 db (\<lambda>u. Some (user_id u) = request_user_id (req_user request)) of
           Inl exc \<Rightarrow> (Inl exc, db)
         | Inr usr \<Rightarrow>
             (case is_valid (UserSerializer_validate d usr) (new_serializer (req_data request)) of
                (ok, serializer) \<Rightarrow>
                  if ok then
                    (case validated_data serializer of
                       Inl exc \<Rightarrow> (Inl exc, db)
                     | Inr vd \<Rightarrow>
                         (let usr' = UserSerializer_update d usr vd
                          in (Inr (Response (Dict (UserSerializer_data d usr')) 200),
                              save_user db usr')))
                  else (Inr (Response (Dict (errors_attr serializer)) 400), db)))
      else (Inr (Response (Str ''You are not authenticated'') 401), db))"

subsection \<open>CommentViewSet\<close>

record title =
  title_id :: nat
  title_name :: string

record review =
  review_id :: nat
  review_title_id :: nat
  review_author :: nat
  score :: int





subsection \<open>The viewsets and the actions they route\<close>

datatype mixin =
    CreateModelMixin
  | RetrieveModelMixin
  | UpdateModelMixin
  | DestroyModelMixin
  | ListModelMixin

datatype action = Create | Retrieve | Update | PartialUpdate | Destroy | List

text \<open>The actions a mixin class defines, each with the HTTP method that reaches it.\<close>

fun mixin_actions :: "mixin \<Rightarrow> (action \<times> string) list" where
  "mixin_actions CreateModelMixin = [(Create, ''post'')]"
| "mixin_actions RetrieveModelMixin = [(Retrieve, ''get'')]"
| "mixin_actions UpdateModelMixin = [(Update, ''put''), (PartialUpdate, ''patch'')]"
| "mixin_actions DestroyModelMixin = [(Destroy, ''delete'')]"
| "mixin_actions ListModelMixin = [(List, ''get'')]"

record viewset =
  mixins :: "mixin list"
  http_method_names :: "string list"

definition default_http_method_names :: "string list" where
  "default_http_method_names =
     [''get'', ''post'', ''put'', ''patch'', ''delete'', ''head'', ''options'', ''trace'']"

definition ModelViewSet :: viewset where
  "ModelViewSet =
     \<lparr>mixins = [CreateModelMixin, RetrieveModelMixin, UpdateModelMixin,
                DestroyModelMixin, ListModelMixin],
      http_method_names = default_http_method_names\<rparr>"

definition CreateDeleteListViewSet :: viewset where
  "CreateDeleteListViewSet =
     \<lparr>mixins = [CreateModelMixin, DestroyModelMixin, ListModelMixin],
      http_method_names = default_http_method_names\<rparr>"

definition TitleViewSet :: viewset where
  "TitleViewSet = ModelViewSet"

definition CommentViewSet :: viewset where
  "CommentViewSet = ModelViewSet"

definition ReviewViewSet :: viewset where
  "ReviewViewSet = ModelViewSet"

definition CategoryViewSet :: viewset where
  "CategoryViewSet = CreateDeleteListViewSet\<lparr>http_method_names := [''get'', ''post'', ''delete'']\<rparr>"

definition GenreViewSet :: viewset where
  "GenreViewSet = CreateDeleteListViewSet\<lparr>http_method_names := [''get'', ''post'', ''delete'']\<rparr>"

definition UserViewSet :: viewset where
  "UserViewSet = ModelViewSet"

text \<open>
  An action is served when one of the viewset's mixins defines it and its HTTP method is
  among the viewset's \<open>http_method_names\<close>.
\<close>

definition actions :: "viewset \<Rightarrow> action list" where
  "actions v =
     map fst (filter (\<lambda>(a, m). m \<in> set (http_method_names v))
                     (concat (map mixin_actions (mixins v))))"

datatype resource = Titles | Categories | Genres | Reviews | Comments | Users

fun viewset_of :: "resource \<Rightarrow> viewset" where
  "viewset_of Titles = TitleViewSet"
| "viewset_of Categories = CategoryViewSet"
| "viewset_of Genres = GenreViewSet"
| "viewset_of Reviews = ReviewViewSet"
| "viewset_of Comments = CommentViewSet"
| "viewset_of Users = UserViewSet"

definition supports :: "resource \<Rightarrow> action \<Rightarrow> bool" where
  "supports r a = (a \<in> set (actions (viewset_of r)))"

subsection \<open>CommentViewSet: a request from dispatch to response\<close>














subsection \<open>TitleViewSet: the annotated queryset\<close>

text \<open>
  \<open>Title.objects.annotate(rating=Avg('reviews__score')).order_by('id')\<close> is the query
  "titles left outer join reviews, grouped by title, with the average of the joined score
  column, ordered by id". A title without reviews keeps one joined row whose score is
  NULL, and the average skips NULLs and is NULL when nothing is left.

  The average of an integer column comes back as a double-precision float, not as an exact
  fraction. A float is held here as the rational number it denotes, and \<open>to_float\<close> is
  the conversion the database applies to the exact quotient of the sum and the count.
\<close>

definition join_rows :: "title \<Rightarrow> review list \<Rightarrow> (title \<times> review option) list" where
  "join_rows t rs =
     (case filter (\<lambda>r. review_title_id r = title_id t) rs of
        [] \<Rightarrow> [(t, None)]
      | m # ms \<Rightarrow> map (\<lambda>r. (t, Some r)) (m # ms))"

definition left_outer_join :: "title list \<Rightarrow> review list \<Rightarrow> (title \<times> review option) list" where
  "left_outer_join ts rs = concat (map (\<lambda>t. join_rows t rs) ts)"

definition group_by :: "('a \<Rightarrow> 'k) \<Rightarrow> 'a list \<Rightarrow> ('k \<times> 'a list) list" where
  "group_by f rows = map (\<lambda>k. (k, filter (\<lambda>row. f row = k) rows)) (remdups (map f rows))"

definition Avg :: "(rat \<Rightarrow> rat) \<Rightarrow> int option list \<Rightarrow> rat option" where
  "Avg to_float vs =
     (case List.map_filter (\<lambda>v. v) vs of
        [] \<Rightarrow> None
      | n # ns \<Rightarrow>
          Some (to_float (of_int (sum_list (n # ns)) / of_int (int (length (n # ns))))))"

definition annotate_rating ::
  "(rat \<Rightarrow> rat) \<Rightarrow> title list \<Rightarrow> review list \<Rightarrow> (title \<times> rat option) list" where
  "annotate_rating to_float ts rs =
     map (\<lambda>(t, rows). (t, Avg to_float (map (\<lambda>row. map_option score (snd row)) rows)))
         (group_by fst (left_outer_join ts rs))"

definition order_by_id :: "(title \<times> 'b) list \<Rightarrow> (title \<times> 'b) list" where
  "order_by_id rows = sort_key (\<lambda>row. title_id (fst row)) rows"

definition TitleViewSet_queryset ::
  "(rat \<Rightarrow> rat) \<Rightarrow> title list \<Rightarrow> review list \<Rightarrow> (title \<times> rat option) list" where
  "TitleViewSet_queryset to_float ts rs = order_by_id (annotate_rating to_float ts rs)"

text \<open>
  The filter backends keep the rows that satisfy the request's filter, and the paginator
  cuts one page out of what is left: \<open>n\<close> rows from offset \<open>k\<close>.
\<close>

definition TitleViewSet_page ::
  "(rat \<Rightarrow> rat) \<Rightarrow> (title \<Rightarrow> bool) \<Rightarrow> nat \<Rightarrow> nat \<Rightarrow> title list \<Rightarrow> review list
     \<Rightarrow> (title \<times> rat option) list" where
  "TitleViewSet_page to_float P k n ts rs =
     take n (drop k (filter (\<lambda>row. P (fst row)) (TitleViewSet_queryset to_float ts rs)))"

text \<open>The arithmetic mean of the scores of the reviews of one title.\<close>

definition mean_score :: "review list \<Rightarrow> nat \<Rightarrow> rat option" where
  "mean_score rs tid =
     (let scores = map score (filter (\<lambda>r. review_title_id r = tid) rs)
      in if scores = [] then None
         else Some (of_int (sum_list scores) / of_int (int (length scores))))"

text \<open>
  The conversion for a database that divides the sum by the count in double precision:
  the double nearest to the exact quotient, ties going to the even significand. The
  quotient \<open>x\<close> is scaled into the binade \<open>[2^52, 2^53)\<close>, rounded to an integer and scaled
  back. Averages of integer columns stay far inside the range of normal doubles, so
  overflow and subnormal numbers do not arise.
\<close>

definition pow2 :: "int \<Rightarrow> rat" where
  "pow2 e = (if 0 \<le> e then 2 ^ nat e else 1 / 2 ^ nat (- e))"

definition round_half_even :: "rat \<Rightarrow> int" where
  "round_half_even y =
     (let f = \<lfloor>y\<rfloor>; r = y - of_int f
      in if r < 1 / 2 then f else if 1 / 2 < r then f + 1 else if even f then f else f + 1)"

definition binade :: "rat \<Rightarrow> int" where
  "binade x =
     (case quotient_of x of
        (p, q) \<Rightarrow> (let k = bitlen p - bitlen q in if pow2 k \<le> x then k else k - 1))"

definition nearest_double :: "rat \<Rightarrow> rat" where
  "nearest_double x =
     (if x = 0 then 0
      else (let a = \<bar>x\<bar>; u = pow2 (binade a - 52); m = round_half_even (a / u)
            in sgn x * of_int m * u))"

subsection \<open>Sequences of calls to the two authentication views\<close>

datatype event = SendCode rand request | GetToken nat request

fun run :: "deps \<Rightarrow> user list \<Rightarrow> event list \<Rightarrow> user list" where
  "run d db [] = db"
| "run d db (SendCode rnd rq # evs) = run d (fst (snd (send_confirmation_code d rnd db rq))) evs"
| "run d db (GetToken now rq # evs) = run d (snd (get_jwt_token d now db rq)) evs"

text \<open>The address a call of \<open>send_confirmation_code\<close> writes a code for, if it gets that far.\<close>

definition send_address :: "deps \<Rightarrow> request \<Rightarrow> string option" where
  "send_address d rq =
     (case SendCodeSerializer d (req_data rq) of
        Inl detail \<Rightarrow> None
      | Inr vd \<Rightarrow> map_of vd ''email'')"

fun sends_to :: "deps \<Rightarrow> string \<Rightarrow> event \<Rightarrow> bool" where
  "sends_to d e (SendCode rnd rq) = (send_address d rq = Some e)"
| "sends_to d e (GetToken now rq) = False"

subsection \<open>One instance of the parameters, for evaluation\<close>

text \<open>
  A small instance of \<open>deps\<close> on which the views can be run: serializers that require
  their fields, a hasher that stores the salt and the reversed password, and a token made
  of the user's address and the time.
\<close>

definition demo_required :: "string list \<Rightarrow> data \<Rightarrow> data + data" where
  "demo_required ks dt =
     (case filter (\<lambda>k. map_of dt k = None) ks of
        [] \<Rightarrow> Inr (filter (\<lambda>(k, v). k \<in> set ks) dt)
      | m # ms \<Rightarrow> Inl (map (\<lambda>k. (k, ''This field is required.'')) (m # ms)))"

definition demo_update :: "user \<Rightarrow> data \<Rightarrow> user" where
  "demo_update u vd = (case map_of vd ''username'' of None \<Rightarrow> u | Some n \<Rightarrow> u\<lparr>username := n\<rparr>)"

definition demo_validate_user :: "user \<Rightarrow> data \<Rightarrow> data + data" where
  "demo_validate_user u dt =
     (if map_of dt ''username'' = Some [] then Inl [(''username'', ''This field may not be blank.'')]
      else Inr (filter (\<lambda>(k, v). k = ''username'') dt))"

definition demo_deps :: deps where
  "demo_deps =
     \<lparr>SendCodeSerializer = demo_required [''email''],
      CheckConfirmationCodeSerializer = demo_required [''email'', ''confirmation_code''],
      CheckConfirmationCodeSerializer_data = (\<lambda>vd. vd),
      UserSerializer_validate = demo_validate_user,
      UserSerializer_update = demo_update,
      UserSerializer_data = (\<lambda>u. [(''username'', username u), (''email'', email u)]),
      make_password = (\<lambda>p s. s @ ''$'' @ rev p),
      check_password = (\<lambda>p h. dropWhile (\<lambda>c. c \<noteq> CHR ''$'') h = ''$'' @ rev p),
      AccessToken_for_user = (\<lambda>u now. email u @ '':'' @ replicate now (CHR ''t'')),
      EMAIL_ADMIN = ''admin@yamdb.ru''\<rparr>"

definition demo_rand :: rand where
  "demo_rand = \<lparr>uuid4 = ''c0de'', salt = ''na''\<rparr>"

definition demo_send :: request where
  "demo_send = \<lparr>req_user = AnonymousUser, req_data = [(''email'', ''ann@yamdb.ru'')]\<rparr>"

definition demo_token :: request where
  "demo_token =
     \<lparr>req_user = AnonymousUser,
      req_data = [(''email'', ''ann@yamdb.ru''), (''confirmation_code'', ''c0de'')]\<rparr>"

definition demo_wrong :: request where
  "demo_wrong =
     \<lparr>req_user = AnonymousUser,
      req_data = [(''email'', ''ann@yamdb.ru''), (''confirmation_code'', ''0000'')]\<rparr>"

definition demo_send_bob :: request where
  "demo_send_bob = \<lparr>req_user = AnonymousUser, req_data = [(''email'', ''bob@yamdb.ru'')]\<rparr>"

definition demo_empty :: request where
  "demo_empty = \<lparr>req_user = AnonymousUser, req_data = []\<rparr>"

definition demo_patch :: request where
  "demo_patch = \<lparr>req_user = Authenticated 2, req_data = [(''username'', ''robert'')]\<rparr>"

definition demo_patch_blank :: request where
  "demo_patch_blank = \<lparr>req_user = Authenticated 2, req_data = [(''username'', [])]\<rparr>"

definition demo_reviews :: "review list" where
  "demo_reviews =
     [\<lparr>review_id = 1, review_title_id = 10, review_author = 1, score = 7\<rparr>,
      \<lparr>review_id = 2, review_title_id = 11, review_author = 2, score = 4\<rparr>,
      \<lparr>review_id = 3, review_title_id = 10, review_author = 2, score = 10\<rparr>]"


definition demo_titles :: "title list" where
  "demo_titles =
     [\<lparr>title_id = 11, title_name = ''Solaris''\<rparr>,
      \<lparr>title_id = 10, title_name = ''Stalker''\<rparr>,
      \<lparr>title_id = 12, title_name = ''Mirror''\<rparr>]"



definition demo_thirds :: "review list" where
  "demo_thirds =
     [\<lparr>review_id = 1, review_title_id = 12, review_author = 1, score = 1\<rparr>,
      \<lparr>review_id = 2, review_title_id = 12, review_author = 2, score = 1\<rparr>,
      \<lparr>review_id = 3, review_title_id = 12, review_author = 3, score = 2\<rparr>]"

definition demo_ann :: user where
  "demo_ann =
     \<lparr>user_id = 1, username = [], email = ''ann@yamdb.ru'', confirmation_code = ''na$ed0c''\<rparr>"

definition demo_bob :: user where
  "demo_bob =
     \<lparr>user_id = 2, username = ''bob'', email = ''bob@yamdb.ru'', confirmation_code = ''xx$1''\<rparr>"

section \<open>Properties\<close>

subsection \<open>Serializer validation\<close>

lemma is_valid_new:
  "is_valid v (new_serializer x) =
     (case v x of
        Inl detail \<Rightarrow> (detail = [], \<lparr>initial_data = x, validated_data_attr = Some [], errors_attr = detail\<rparr>)
      | Inr vd \<Rightarrow> (True, \<lparr>initial_data = x, validated_data_attr = Some vd, errors_attr = []\<rparr>))"
  by (simp add: is_valid_def new_serializer_def split: sum.splits)

lemma is_valid_cached:
  "validated_data_attr s = Some vd \<Longrightarrow> is_valid v s = (errors_attr s = [], s)"
  by (simp add: is_valid_def)

lemma is_valid_raise_then_valid:
  "is_valid_raise v s = Inr s' \<Longrightarrow> is_valid v s' = (True, s')"
  by (auto simp: is_valid_raise_def is_valid_def Let_def split: option.splits sum.splits if_splits prod.splits)

subsection \<open>The two authentication views, unfolded on validated input\<close>

lemma send_confirmation_code_valid:
  assumes "SendCodeSerializer d (req_data rq) = Inr vd" and "map_of vd ''email'' = Some e"
  shows "send_confirmation_code d rnd db rq =
           (Inr (Response (Str (''Code was sent to '' @ e @ '', please check'')) 200),
            update_confirmation_code (if exists_email db e then db else create_user db e) e
              (make_password d (uuid4 rnd) (salt rnd)),
            [\<lparr>subject = ''Confirmation code on Yamdb.ru'',
              message = ''Your confirmation code: '' @ uuid4 rnd,
              from_email = ''Yamdb.ru <'' @ EMAIL_ADMIN d @ ''>'',
              recipient_list = [e]\<rparr>])"
  using assms
  by (simp add: send_confirmation_code_def is_valid_raise_def is_valid_new is_valid_cached
      validated_data_def getitem_def Let_def)

lemma send_confirmation_code_invalid:
  assumes "send_address d rq = None"
  shows "fst (snd (send_confirmation_code d rnd db rq)) = db"
  using assms
  by (auto simp: send_confirmation_code_def send_address_def is_valid_raise_def is_valid_new is_valid_cached
      validated_data_def getitem_def Let_def split: sum.splits option.splits)

lemma get_jwt_token_valid:
  assumes "CheckConfirmationCodeSerializer d (req_data rq) = Inr vd"
    and "map_of vd ''email'' = Some e"
    and "map_of (CheckConfirmationCodeSerializer_data d vd) ''confirmation_code'' = Some c"
  shows "get_jwt_token d now db rq =
           (case get_object_or_404 db (\<lambda>u. email u = e) of
              Inl exc \<Rightarrow> (Inl exc, db)
            | Inr usr \<Rightarrow>
                if check_password d c (confirmation_code usr) then
                  (Inr (Response (Dict [(''token'', AccessToken_for_user d usr now)]) 200), db)
                else
                  (Inr (Response (Dict [(''confirmation_code'', ''Wrong confirmation code'')]) 400), db))"
  using assms
  by (simp add: get_jwt_token_def is_valid_new validated_data_def getitem_def)

lemma get_jwt_token_db: "snd (get_jwt_token d now db rq) = db"
  by (auto simp: get_jwt_token_def split: prod.splits sum.splits)

lemma send_never_400:
  "fst (send_confirmation_code d rnd db rq) \<noteq> Inr (Response b 400)"
  by (auto simp: send_confirmation_code_def is_valid_raise_def is_valid_new is_valid_cached
      validated_data_def getitem_def Let_def split: sum.splits option.splits prod.splits if_splits)


subsection \<open>Which rows a call touches\<close>

lemma filter_update_confirmation_code_other:
  "a \<noteq> e \<Longrightarrow>
     filter (\<lambda>u. email u = e) (update_confirmation_code db a h) = filter (\<lambda>u. email u = e) db"
  by (induction db) (auto simp: update_confirmation_code_def)

lemma filter_update_confirmation_code_same:
  "filter (\<lambda>u. email u = e) (update_confirmation_code db e h) =
     map (\<lambda>u. u\<lparr>confirmation_code := h\<rparr>) (filter (\<lambda>u. email u = e) db)"
  by (induction db) (auto simp: update_confirmation_code_def)

lemma update_confirmation_code_absent:
  "filter (\<lambda>u. email u = e) db = [] \<Longrightarrow> update_confirmation_code db e h = db"
  by (induction db) (auto simp: update_confirmation_code_def split: if_splits)

lemma send_keeps_other_address:
  assumes "send_address d rq \<noteq> Some e"
  shows "filter (\<lambda>u. email u = e) (fst (snd (send_confirmation_code d rnd db rq)))
           = filter (\<lambda>u. email u = e) db"
proof (cases "send_address d rq")
  case None
  then show ?thesis by (simp add: send_confirmation_code_invalid)
next
  case (Some a)
  then obtain vd where vd: "SendCodeSerializer d (req_data rq) = Inr vd" "map_of vd ''email'' = Some a"
    by (auto simp: send_address_def split: sum.splits)
  from Some assms have "a \<noteq> e" by simp
  then show ?thesis
    by (simp add: send_confirmation_code_valid [OF vd] filter_update_confirmation_code_other
        create_user_def)
qed

lemma run_keeps_address:
  "\<forall>ev \<in> set evs. \<not> sends_to d e ev \<Longrightarrow>
     filter (\<lambda>u. email u = e) (run d db evs) = filter (\<lambda>u. email u = e) db"
proof (induction evs arbitrary: db)
  case Nil
  then show ?case by simp
next
  case (Cons ev evs)
  show ?case
  proof (cases ev)
    case (SendCode rnd rq)
    with Cons.prems have "send_address d rq \<noteq> Some e" by simp
    with Cons SendCode show ?thesis by (simp add: send_keeps_other_address)
  next
    case (GetToken now rq)
    with Cons show ?thesis by (simp add: get_jwt_token_db)
  qed
qed

subsection \<open>The trailing 400 branch of send_confirmation_code\<close>

text \<open>
  Claim C9. In \<open>send_confirmation_code\<close> the final branch, which returns
  \<open>serializer.errors\<close> with status 400, is never taken: once
  \<open>is_valid(raise_exception=True)\<close> has returned, the second \<open>is_valid()\<close> answers
  true on the same serializer object; on invalid data the first call raises the
  \<open>ValidationError\<close>; and no input makes the view return a response with status 400.
\<close>

theorem trailing_400_unreachable:
  "(\<forall>s'. is_valid_raise (SendCodeSerializer d) (new_serializer (req_data rq)) = Inr s'
          \<longrightarrow> is_valid (SendCodeSerializer d) s' = (True, s'))
   \<and> (\<forall>detail. SendCodeSerializer d (req_data rq) = Inl detail \<and> detail \<noteq> []
          \<longrightarrow> send_confirmation_code d rnd db rq = (Inl (ValidationError detail), db, []))
   \<and> (\<forall>b. fst (send_confirmation_code d rnd db rq) \<noteq> Inr (Response b 400))"
proof (intro conjI allI impI)
  fix s' assume "is_valid_raise (SendCodeSerializer d) (new_serializer (req_data rq)) = Inr s'"
  then show "is_valid (SendCodeSerializer d) s' = (True, s')"
    by (rule is_valid_raise_then_valid)
next
  fix detail assume "SendCodeSerializer d (req_data rq) = Inl detail \<and> detail \<noteq> []"
  then show "send_confirmation_code d rnd db rq = (Inl (ValidationError detail), db, [])"
    by (simp add: send_confirmation_code_def is_valid_raise_def is_valid_new)
next
  fix b show "fst (send_confirmation_code d rnd db rq) \<noteq> Inr (Response b 400)"
    by (rule send_never_400)
qed

theorem trailing_400_unreachable_witness:
  "is_valid_raise (SendCodeSerializer demo_deps) (new_serializer (req_data demo_send))
     = Inr \<lparr>initial_data = [(''email'', ''ann@yamdb.ru'')],
            validated_data_attr = Some [(''email'', ''ann@yamdb.ru'')], errors_attr = []\<rparr>
   \<and> is_valid (SendCodeSerializer demo_deps)
        \<lparr>initial_data = [(''email'', ''ann@yamdb.ru'')],
         validated_data_attr = Some [(''email'', ''ann@yamdb.ru'')], errors_attr = []\<rparr>
       = (True, \<lparr>initial_data = [(''email'', ''ann@yamdb.ru'')],
                 validated_data_attr = Some [(''email'', ''ann@yamdb.ru'')], errors_attr = []\<rparr>)
   \<and> SendCodeSerializer demo_deps (req_data demo_empty)
       = Inl [(''email'', ''This field is required.'')]
   \<and> send_confirmation_code demo_deps demo_rand [demo_bob] demo_empty
       = (Inl (ValidationError [(''email'', ''This field is required.'')]), [demo_bob], [])
   \<and> fst (send_confirmation_code demo_deps demo_rand [demo_bob] demo_send)
       \<noteq> Inr (Response (Dict []) 400)"
  using trailing_400_unreachable [of demo_deps demo_send demo_rand "[demo_bob]"]
    trailing_400_unreachable [of demo_deps demo_empty demo_rand "[demo_bob]"]
  by (simp add: demo_deps_def demo_send_def demo_empty_def demo_required_def
      is_valid_raise_def is_valid_new)

subsection \<open>get_jwt_token: accept or reject\<close>

text \<open>
  Claim C4. \<open>get_jwt_token\<close> checks the submitted code against the stored hash: for a
  request whose data pass the serializer and whose email is that of one stored user, the
  response is 200 with a token for that user when \<open>check_password\<close> accepts the submitted
  code for the user's stored hash; otherwise it is 400 with the message
  'Wrong confirmation code'. Either way the user table is unchanged.
\<close>

theorem get_jwt_token_200_or_400:
  assumes "CheckConfirmationCodeSerializer d (req_data rq) = Inr vd"
    and "map_of vd ''email'' = Some e"
    and "map_of (CheckConfirmationCodeSerializer_data d vd) ''confirmation_code'' = Some c"
    and "filter (\<lambda>u. email u = e) db = [usr]"
  shows "get_jwt_token d now db rq =
           (if check_password d c (confirmation_code usr)
            then Inr (Response (Dict [(''token'', AccessToken_for_user d usr now)]) 200)
            else Inr (Response (Dict [(''confirmation_code'', ''Wrong confirmation code'')]) 400),
            db)"
  using assms by (simp add: get_jwt_token_valid get_object_or_404_def)

theorem get_jwt_token_200_or_400_witness:
  "CheckConfirmationCodeSerializer demo_deps (req_data demo_token)
       = Inr [(''email'', ''ann@yamdb.ru''), (''confirmation_code'', ''c0de'')]
   \<and> CheckConfirmationCodeSerializer demo_deps (req_data demo_wrong)
       = Inr [(''email'', ''ann@yamdb.ru''), (''confirmation_code'', ''0000'')]
   \<and> filter (\<lambda>u. email u = ''ann@yamdb.ru'') [demo_ann, demo_bob] = [demo_ann]
   \<and> get_jwt_token demo_deps 2 [demo_ann, demo_bob] demo_token
       = (Inr (Response (Dict [(''token'', ''ann@yamdb.ru:tt'')]) 200), [demo_ann, demo_bob])
   \<and> get_jwt_token demo_deps 2 [demo_ann, demo_bob] demo_wrong
       = (Inr (Response (Dict [(''confirmation_code'', ''Wrong confirmation code'')]) 400),
          [demo_ann, demo_bob])"
proof -
  have t: "CheckConfirmationCodeSerializer demo_deps (req_data demo_token)
       = Inr [(''email'', ''ann@yamdb.ru''), (''confirmation_code'', ''c0de'')]"
    by (simp add: demo_deps_def demo_token_def demo_required_def)
  have w: "CheckConfirmationCodeSerializer demo_deps (req_data demo_wrong)
       = Inr [(''email'', ''ann@yamdb.ru''), (''confirmation_code'', ''0000'')]"
    by (simp add: demo_deps_def demo_wrong_def demo_required_def)
  have f: "filter (\<lambda>u. email u = ''ann@yamdb.ru'') [demo_ann, demo_bob] = [demo_ann]"
    by (simp add: demo_ann_def demo_bob_def)
  have e: "map_of [(''email'', ''ann@yamdb.ru''), (''confirmation_code'', x)] ''email''
             = Some ''ann@yamdb.ru''" for x :: string
    by simp
  have c: "map_of (CheckConfirmationCodeSerializer_data demo_deps
              [(''email'', ''ann@yamdb.ru''), (''confirmation_code'', x)]) ''confirmation_code''
             = Some x" for x
    by (simp add: demo_deps_def)
  have ok: "check_password demo_deps ''c0de'' (confirmation_code demo_ann)"
    by (simp add: demo_deps_def demo_ann_def)
  have bad: "\<not> check_password demo_deps ''0000'' (confirmation_code demo_ann)"
    by (simp add: demo_deps_def demo_ann_def)
  have tok: "AccessToken_for_user demo_deps demo_ann 2 = ''ann@yamdb.ru:tt''"
    by (simp add: demo_deps_def demo_ann_def numeral_2_eq_2)
  have a: "get_jwt_token demo_deps 2 [demo_ann, demo_bob] demo_token
       = (Inr (Response (Dict [(''token'', ''ann@yamdb.ru:tt'')]) 200), [demo_ann, demo_bob])"
    using get_jwt_token_200_or_400 [OF t e c f, of 2] by (simp add: ok tok)
  have b: "get_jwt_token demo_deps 2 [demo_ann, demo_bob] demo_wrong
       = (Inr (Response (Dict [(''confirmation_code'', ''Wrong confirmation code'')]) 400),
          [demo_ann, demo_bob])"
    using get_jwt_token_200_or_400 [OF w e c f, of 2] by (simp add: bad)
  show ?thesis by (intro conjI t w f a b)
qed

lemma get_jwt_token_invalid:
  "CheckConfirmationCodeSerializer d (req_data rq) = Inl detail \<Longrightarrow> detail \<noteq> [] \<Longrightarrow>
     get_jwt_token d now db rq = (Inr (Response (Dict detail) 400), db)"
  by (simp add: get_jwt_token_def is_valid_new)

lemma get_jwt_token_status_time:
  "http_status (fst (get_jwt_token d now db rq)) = http_status (fst (get_jwt_token d now' db rq))"
  by (auto simp: get_jwt_token_def split: prod.splits sum.splits)

subsection \<open>A confirmation code is not used up\<close>

text \<open>
  Claim C1 says that a confirmation code is one-time: after one successful exchange, a
  second call of \<open>get_jwt_token\<close> with the same email and code does not succeed. The view
  writes nothing, so the second call succeeds as the first did: below, the code mailed by
  \<open>send_confirmation_code\<close> is exchanged twice in a row, with status 200 both times.
\<close>

theorem confirmation_code_reused_counterexample:
  "http_status (fst (get_jwt_token demo_deps 1
       (fst (snd (send_confirmation_code demo_deps demo_rand [] demo_send))) demo_token)) = 200
   \<and> http_status (fst (get_jwt_token demo_deps 2
       (snd (get_jwt_token demo_deps 1
          (fst (snd (send_confirmation_code demo_deps demo_rand [] demo_send))) demo_token))
       demo_token)) = 200"
proof -
  have s: "SendCodeSerializer demo_deps (req_data demo_send) = Inr [(''email'', ''ann@yamdb.ru'')]"
    by (simp add: demo_deps_def demo_send_def demo_required_def)
  have db: "fst (snd (send_confirmation_code demo_deps demo_rand [] demo_send))
              = [\<lparr>user_id = 1, username = [], email = ''ann@yamdb.ru'',
                  confirmation_code = ''na$ed0c''\<rparr>]"
    by (simp add: send_confirmation_code_valid [OF s] exists_email_def create_user_def
        update_confirmation_code_def fresh_id_def)
      (simp add: demo_deps_def demo_rand_def)
  have t: "CheckConfirmationCodeSerializer demo_deps (req_data demo_token)
       = Inr [(''email'', ''ann@yamdb.ru''), (''confirmation_code'', ''c0de'')]"
    by (simp add: demo_deps_def demo_token_def demo_required_def)
  have c: "map_of (CheckConfirmationCodeSerializer_data demo_deps
              [(''email'', ''ann@yamdb.ru''), (''confirmation_code'', ''c0de'')]) ''confirmation_code''
             = Some ''c0de''"
    by (simp add: demo_deps_def)
  have ok: "check_password demo_deps ''c0de'' ''na$ed0c''"
    by (simp add: demo_deps_def)
  have g: "http_status (fst (get_jwt_token demo_deps now
              [\<lparr>user_id = 1, username = [], email = ''ann@yamdb.ru'',
                confirmation_code = ''na$ed0c''\<rparr>] demo_token)) = 200" for now
    by (simp add: get_jwt_token_valid [OF t _ c] get_object_or_404_def ok)
  show ?thesis
    by (simp only: db get_jwt_token_db g)
qed

text \<open>
  Claim C1, amended. \<open>get_jwt_token\<close> leaves the user table as it found it, so a second
  call with the same request, at any later time and with no call of
  \<open>send_confirmation_code\<close> in between, ends with the same status as the first: a code
  that was exchanged once with status 200 is exchanged again with status 200.
\<close>

theorem confirmation_code_not_consumed:
  "snd (get_jwt_token d now db rq) = db
   \<and> http_status (fst (get_jwt_token d now' (snd (get_jwt_token d now db rq)) rq))
       = http_status (fst (get_jwt_token d now db rq))"
  by (simp add: get_jwt_token_db get_jwt_token_status_time [of d now' db rq now])

subsection \<open>send_confirmation_code: create the user or keep it\<close>

lemma exists_email_iff: "exists_email db e \<longleftrightarrow> (\<exists>u \<in> set db. email u = e)"
  by (auto simp: exists_email_def filter_empty_conv)

lemma update_confirmation_code_rows:
  "length (update_confirmation_code db e h) = length db
   \<and> map user_id (update_confirmation_code db e h) = map user_id db
   \<and> map email (update_confirmation_code db e h) = map email db
   \<and> map username (update_confirmation_code db e h) = map username db"
  by (simp add: update_confirmation_code_def comp_def)

lemma update_confirmation_code_stored:
  assumes "u \<in> set (update_confirmation_code db e h)" and "email u = e"
  shows "confirmation_code u = h"
proof -
  from assms(1) obtain v where v: "v \<in> set db"
    and u: "u = (if email v = e then v\<lparr>confirmation_code := h\<rparr> else v)"
    unfolding update_confirmation_code_def set_map by blast
  show ?thesis
  proof (cases "email v = e")
    case True
    with u show ?thesis by simp
  next
    case False
    with u assms(2) show ?thesis by simp
  qed
qed

lemma update_confirmation_code_others:
  "map confirmation_code (filter (\<lambda>u. email u \<noteq> e) (update_confirmation_code db e h))
     = map confirmation_code (filter (\<lambda>u. email u \<noteq> e) db)"
  by (induction db) (simp_all add: update_confirmation_code_def)

text \<open>
  Claim C3. For a request whose data pass the serializer with email \<open>e\<close>:
  when no stored user has that email, one user with that email is added to the table;
  when a stored user has it, no user is added (the table keeps its rows, ids and emails);
  in both cases every user with that email ends with the hash of the new code as its
  stored confirmation code, such a user exists, the codes of the other users are
  untouched, and the response has status 200.
\<close>

theorem send_confirmation_code_exists_or_create:
  assumes "SendCodeSerializer d (req_data rq) = Inr vd"
    and "map_of vd ''email'' = Some e"
    and "send_confirmation_code d rnd db rq = (r, db', sent)"
  shows "http_status r = 200
    \<and> ((\<exists>u \<in> set db. email u = e) \<or>
          db' = db @ [\<lparr>user_id = fresh_id db, username = [], email = e,
                       confirmation_code = make_password d (uuid4 rnd) (salt rnd)\<rparr>])
    \<and> ((\<forall>u \<in> set db. email u \<noteq> e) \<or>
          (length db' = length db \<and> map user_id db' = map user_id db
            \<and> map email db' = map email db))
    \<and> (\<exists>u \<in> set db'. email u = e)
    \<and> (\<forall>u \<in> set db'. email u = e \<longrightarrow>
          confirmation_code u = make_password d (uuid4 rnd) (salt rnd))
    \<and> map confirmation_code (filter (\<lambda>u. email u \<noteq> e) db')
         = map confirmation_code (filter (\<lambda>u. email u \<noteq> e) db)"
proof -
  let ?h = "make_password d (uuid4 rnd) (salt rnd)"
  let ?new = "\<lparr>user_id = fresh_id db, username = [], email = e, confirmation_code = ?h\<rparr>"
  from assms have r: "r = Inr (Response (Str (''Code was sent to '' @ e @ '', please check'')) 200)"
    by (simp add: send_confirmation_code_valid)
  from assms have db':
    "db' = update_confirmation_code (if exists_email db e then db else create_user db e) e ?h"
    by (simp add: send_confirmation_code_valid)
  have 1: "http_status r = 200" by (simp add: r)
  show ?thesis
  proof (cases "exists_email db e")
    case True
    then have ex: "\<exists>u \<in> set db. email u = e" by (simp add: exists_email_iff)
    from True db' have eq: "db' = update_confirmation_code db e ?h" by simp
    have rows: "length db' = length db \<and> map user_id db' = map user_id db
                 \<and> map email db' = map email db"
      unfolding eq using update_confirmation_code_rows [of db e ?h] by simp
    from ex have "e \<in> set (map email db)" by force
    with rows have "e \<in> set (map email db')" by simp
    then have 4: "\<exists>u \<in> set db'. email u = e" by force
    have 5: "\<forall>u \<in> set db'. email u = e \<longrightarrow> confirmation_code u = ?h"
      unfolding eq by (blast intro: update_confirmation_code_stored)
    have 6: "map confirmation_code (filter (\<lambda>u. email u \<noteq> e) db')
         = map confirmation_code (filter (\<lambda>u. email u \<noteq> e) db)"
      unfolding eq by (rule update_confirmation_code_others)
    show ?thesis
      by (intro conjI) (rule 1, rule disjI1, rule ex, rule disjI2, rule rows, rule 4, rule 5, rule 6)
  next
    case False
    then have none: "\<forall>u \<in> set db. email u \<noteq> e" by (simp add: exists_email_iff)
    then have "filter (\<lambda>u. email u = e) db = []" by (simp add: filter_empty_conv)
    then have "update_confirmation_code db e ?h = db" by (rule update_confirmation_code_absent)
    with False db' have eq: "db' = db @ [?new]"
      by (simp add: create_user_def update_confirmation_code_def)
    have 4: "\<exists>u \<in> set db'. email u = e" unfolding eq by simp
    have 5: "\<forall>u \<in> set db'. email u = e \<longrightarrow> confirmation_code u = ?h"
      unfolding eq using none by auto
    have 6: "map confirmation_code (filter (\<lambda>u. email u \<noteq> e) db')
         = map confirmation_code (filter (\<lambda>u. email u \<noteq> e) db)"
      unfolding eq by simp
    show ?thesis
      by (intro conjI) (rule 1, rule disjI2, rule eq, rule disjI1, rule none, rule 4, rule 5, rule 6)
  qed
qed


theorem send_confirmation_code_exists_or_create_witness:
  "SendCodeSerializer demo_deps (req_data demo_send) = Inr [(''email'', ''ann@yamdb.ru'')]
   \<and> map_of [(''email'', ''ann@yamdb.ru'')] ''email'' = Some ''ann@yamdb.ru''
   \<and> send_confirmation_code demo_deps demo_rand [demo_bob] demo_send
       = (Inr (Response (Str ''Code was sent to ann@yamdb.ru, please check'') 200),
          [demo_bob, \<lparr>user_id = 3, username = [], email = ''ann@yamdb.ru'',
                      confirmation_code = ''na$ed0c''\<rparr>],
          [\<lparr>subject = ''Confirmation code on Yamdb.ru'',
            message = ''Your confirmation code: c0de'',
            from_email = ''Yamdb.ru <admin@yamdb.ru>'',
            recipient_list = [''ann@yamdb.ru'']\<rparr>])
   \<and> send_confirmation_code demo_deps demo_rand
         [demo_ann\<lparr>confirmation_code := ''old''\<rparr>, demo_bob] demo_send
       = (Inr (Response (Str ''Code was sent to ann@yamdb.ru, please check'') 200),
          [demo_ann, demo_bob],
          [\<lparr>subject = ''Confirmation code on Yamdb.ru'',
            message = ''Your confirmation code: c0de'',
            from_email = ''Yamdb.ru <admin@yamdb.ru>'',
            recipient_list = [''ann@yamdb.ru'']\<rparr>])
   \<and> http_status (Inr (Response (Str ''Code was sent to ann@yamdb.ru, please check'') 200)) = 200
   \<and> map user_id [demo_ann, demo_bob]
       = map user_id [demo_ann\<lparr>confirmation_code := ''old''\<rparr>, demo_bob]"
proof -
  have p1: "SendCodeSerializer demo_deps (req_data demo_send) = Inr [(''email'', ''ann@yamdb.ru'')]"
    by (simp add: demo_deps_def demo_send_def demo_required_def)
  have p2: "map_of [(''email'', ''ann@yamdb.ru'')] ''email'' = Some ''ann@yamdb.ru''"
    by simp
  have h: "make_password demo_deps ''c0de'' (salt demo_rand) = ''na$ed0c''"
    by (simp add: demo_deps_def demo_rand_def)
  have m: "EMAIL_ADMIN demo_deps = ''admin@yamdb.ru''" "uuid4 demo_rand = ''c0de''"
    by (simp_all add: demo_deps_def demo_rand_def)
  have a: "send_confirmation_code demo_deps demo_rand [demo_bob] demo_send
       = (Inr (Response (Str ''Code was sent to ann@yamdb.ru, please check'') 200),
          [demo_bob, \<lparr>user_id = 3, username = [], email = ''ann@yamdb.ru'',
                      confirmation_code = ''na$ed0c''\<rparr>],
          [\<lparr>subject = ''Confirmation code on Yamdb.ru'',
            message = ''Your confirmation code: c0de'',
            from_email = ''Yamdb.ru <admin@yamdb.ru>'',
            recipient_list = [''ann@yamdb.ru'']\<rparr>])"
    by (simp add: send_confirmation_code_valid [OF p1 p2] h m exists_email_def create_user_def
        update_confirmation_code_def fresh_id_def demo_bob_def)
  have b: "send_confirmation_code demo_deps demo_rand
         [demo_ann\<lparr>confirmation_code := ''old''\<rparr>, demo_bob] demo_send
       = (Inr (Response (Str ''Code was sent to ann@yamdb.ru, please check'') 200),
          [demo_ann, demo_bob],
          [\<lparr>subject = ''Confirmation code on Yamdb.ru'',
            message = ''Your confirmation code: c0de'',
            from_email = ''Yamdb.ru <admin@yamdb.ru>'',
            recipient_list = [''ann@yamdb.ru'']\<rparr>])"
    by (simp add: send_confirmation_code_valid [OF p1 p2] h m exists_email_def
        update_confirmation_code_def demo_bob_def demo_ann_def)
  from send_confirmation_code_exists_or_create [OF p1 p2 a]
  have ca: "http_status (Inr (Response (Str ''Code was sent to ann@yamdb.ru, please check'') 200)) = 200"
    by (rule conjunct1)
  from send_confirmation_code_exists_or_create [OF p1 p2 b]
  have cb: "map user_id [demo_ann, demo_bob]
       = map user_id [demo_ann\<lparr>confirmation_code := ''old''\<rparr>, demo_bob]"
    by (simp add: demo_ann_def demo_bob_def)
  show ?thesis by (intro conjI p1 p2 a b ca cb)
qed

lemma get_jwt_token_status_rows:
  assumes "CheckConfirmationCodeSerializer d (req_data rq) = Inr vd"
    and "map_of vd ''email'' = Some e"
    and "filter (\<lambda>u. email u = e) db = filter (\<lambda>u. email u = e) db'"
  shows "http_status (fst (get_jwt_token d now db rq))
           = http_status (fst (get_jwt_token d now' db' rq))"
  using assms
  by (simp add: get_jwt_token_def is_valid_new validated_data_def getitem_def
      get_object_or_404_def split: option.splits list.splits)

lemma get_object_or_404_single: "filter P xs = [x] \<Longrightarrow> get_object_or_404 xs P = Inr x"
  by (simp add: get_object_or_404_def)

subsection \<open>A confirmation code does not expire\<close>

text \<open>
  Claim C6. A confirmation code has no expiry: when \<open>get_jwt_token\<close> accepts a request
  (status 200) at one time, it accepts the same request at any later time, after any
  sequence of calls of the two authentication views in which no call of
  \<open>send_confirmation_code\<close> is for that email. The outcome is decided by the submitted
  code and the stored hash; the clock is read only to build the token.
\<close>

theorem confirmation_code_no_expiry:
  assumes "http_status (fst (get_jwt_token d now db rq)) = 200"
    and "CheckConfirmationCodeSerializer d (req_data rq) = Inr vd"
    and "map_of vd ''email'' = Some e"
    and "\<forall>ev \<in> set evs. \<not> sends_to d e ev"
  shows "http_status (fst (get_jwt_token d now' (run d db evs) rq)) = 200"
proof -
  from assms(4) have "filter (\<lambda>u. email u = e) (run d db evs) = filter (\<lambda>u. email u = e) db"
    by (rule run_keeps_address)
  then have "http_status (fst (get_jwt_token d now' (run d db evs) rq))
               = http_status (fst (get_jwt_token d now db rq))"
    by (rule get_jwt_token_status_rows [OF assms(2) assms(3)])
  with assms(1) show ?thesis by simp
qed


theorem confirmation_code_no_expiry_witness:
  "http_status (fst (get_jwt_token demo_deps 1 [demo_ann, demo_bob] demo_token)) = 200
   \<and> CheckConfirmationCodeSerializer demo_deps (req_data demo_token)
       = Inr [(''email'', ''ann@yamdb.ru''), (''confirmation_code'', ''c0de'')]
   \<and> \<not> sends_to demo_deps ''ann@yamdb.ru'' (GetToken 5 demo_wrong)
   \<and> \<not> sends_to demo_deps ''ann@yamdb.ru'' (SendCode demo_rand demo_send_bob)
   \<and> \<not> sends_to demo_deps ''ann@yamdb.ru'' (GetToken 7 demo_token)
   \<and> http_status (fst (get_jwt_token demo_deps 9
         (run demo_deps [demo_ann, demo_bob]
            [GetToken 5 demo_wrong, SendCode demo_rand demo_send_bob, GetToken 7 demo_token])
         demo_token)) = 200"
proof -
  have t: "CheckConfirmationCodeSerializer demo_deps (req_data demo_token)
       = Inr [(''email'', ''ann@yamdb.ru''), (''confirmation_code'', ''c0de'')]"
    by (simp add: demo_deps_def demo_token_def demo_required_def)
  have e: "map_of [(''email'', ''ann@yamdb.ru''), (''confirmation_code'', ''c0de'')] ''email''
             = Some ''ann@yamdb.ru''"
    by simp
  have c: "map_of (CheckConfirmationCodeSerializer_data demo_deps
              [(''email'', ''ann@yamdb.ru''), (''confirmation_code'', ''c0de'')]) ''confirmation_code''
             = Some ''c0de''"
    by (simp add: demo_deps_def)
  have f: "filter (\<lambda>u. email u = ''ann@yamdb.ru'') [demo_ann, demo_bob] = [demo_ann]"
    by (simp add: demo_ann_def demo_bob_def)
  have ok: "check_password demo_deps ''c0de'' (confirmation_code demo_ann)"
    by (simp add: demo_deps_def demo_ann_def)
  have a: "http_status (fst (get_jwt_token demo_deps 1 [demo_ann, demo_bob] demo_token)) = 200"
    by (simp add: get_jwt_token_valid [OF t e c] get_object_or_404_single [OF f] ok)
  have s1: "\<not> sends_to demo_deps ''ann@yamdb.ru'' (GetToken 5 demo_wrong)"
    and s3: "\<not> sends_to demo_deps ''ann@yamdb.ru'' (GetToken 7 demo_token)"
    by simp_all
  have s2: "\<not> sends_to demo_deps ''ann@yamdb.ru'' (SendCode demo_rand demo_send_bob)"
    by (simp add: send_address_def demo_deps_def demo_send_bob_def demo_required_def)
  have evs: "\<forall>ev \<in> set [GetToken 5 demo_wrong, SendCode demo_rand demo_send_bob,
                          GetToken 7 demo_token]. \<not> sends_to demo_deps ''ann@yamdb.ru'' ev"
    using s1 s2 s3 by simp
  have z: "http_status (fst (get_jwt_token demo_deps 9
         (run demo_deps [demo_ann, demo_bob]
            [GetToken 5 demo_wrong, SendCode demo_rand demo_send_bob, GetToken 7 demo_token])
         demo_token)) = 200"
    by (rule confirmation_code_no_expiry [OF a t e evs])
  show ?thesis by (intro conjI a t s1 s2 s3 z)
qed

lemma filter_address_after_send:
  assumes "SendCodeSerializer d (req_data rq) = Inr vd" and "map_of vd ''email'' = Some e"
    and "length (filter (\<lambda>u. email u = e) db) \<le> 1"
  shows "\<exists>usr. filter (\<lambda>u. email u = e) (fst (snd (send_confirmation_code d rnd db rq))) = [usr]
           \<and> confirmation_code usr = make_password d (uuid4 rnd) (salt rnd)"
proof (cases "filter (\<lambda>u. email u = e) db")
  case Nil
  then have "\<not> exists_email db e" by (simp add: exists_email_def)
  with Nil show ?thesis
    by (simp add: send_confirmation_code_valid [OF assms(1,2)]
        filter_update_confirmation_code_same create_user_def)
next
  case (Cons u us)
  with assms(3) have us: "us = []" by simp
  from Cons have "exists_email db e" by (simp add: exists_email_def)
  with Cons us show ?thesis
    by (simp add: send_confirmation_code_valid [OF assms(1,2)]
        filter_update_confirmation_code_same)
qed

subsection \<open>The authentication flow\<close>

text \<open>
  Claim C2. For a request to \<open>send_confirmation_code\<close> whose data pass the serializer
  with email \<open>e\<close> (at most one stored user having that email): the response has status
  200; the UUID drawn in the call is hashed and the hash is the stored confirmation code
  of the user with that email; one mail goes to that address and carries the UUID in
  plain text. A later call of \<open>get_jwt_token\<close> with that email (after any calls of the two
  views that send no code to that email) compares the submitted code with that hash: when
  \<open>check_password\<close> accepts, the response is a token for that user with status 200, and
  otherwise it is status 400.
\<close>

theorem authentication_flow:
  assumes "SendCodeSerializer d (req_data rq) = Inr vd"
    and "map_of vd ''email'' = Some e"
    and "length (filter (\<lambda>u. email u = e) db) \<le> 1"
    and "send_confirmation_code d rnd db rq = (r, db', sent)"
    and "\<forall>ev \<in> set evs. \<not> sends_to d e ev"
    and "CheckConfirmationCodeSerializer d (req_data rq') = Inr vd'"
    and "map_of vd' ''email'' = Some e"
    and "map_of (CheckConfirmationCodeSerializer_data d vd') ''confirmation_code'' = Some c"
  shows "http_status r = 200
    \<and> sent = [\<lparr>subject = ''Confirmation code on Yamdb.ru'',
               message = ''Your confirmation code: '' @ uuid4 rnd,
               from_email = ''Yamdb.ru <'' @ EMAIL_ADMIN d @ ''>'',
               recipient_list = [e]\<rparr>]
    \<and> (\<exists>usr. filter (\<lambda>u. email u = e) db' = [usr]
          \<and> confirmation_code usr = make_password d (uuid4 rnd) (salt rnd)
          \<and> get_jwt_token d now (run d db' evs) rq' =
               (if check_password d c (make_password d (uuid4 rnd) (salt rnd))
                then Inr (Response (Dict [(''token'', AccessToken_for_user d usr now)]) 200)
                else Inr (Response (Dict [(''confirmation_code'', ''Wrong confirmation code'')])
                       400),
                run d db' evs))"
proof -
  have "send_confirmation_code d rnd db rq =
           (Inr (Response (Str (''Code was sent to '' @ e @ '', please check'')) 200),
            update_confirmation_code (if exists_email db e then db else create_user db e) e
              (make_password d (uuid4 rnd) (salt rnd)),
            [\<lparr>subject = ''Confirmation code on Yamdb.ru'',
              message = ''Your confirmation code: '' @ uuid4 rnd,
              from_email = ''Yamdb.ru <'' @ EMAIL_ADMIN d @ ''>'',
              recipient_list = [e]\<rparr>])"
    by (rule send_confirmation_code_valid [OF assms(1,2)])
  with assms(4) have "r = Inr (Response (Str (''Code was sent to '' @ e @ '', please check'')) 200)"
    and sent: "sent = [\<lparr>subject = ''Confirmation code on Yamdb.ru'',
               message = ''Your confirmation code: '' @ uuid4 rnd,
               from_email = ''Yamdb.ru <'' @ EMAIL_ADMIN d @ ''>'',
               recipient_list = [e]\<rparr>]"
    by simp_all
  then have r: "http_status r = 200" by simp
  from assms(4) have db': "db' = fst (snd (send_confirmation_code d rnd db rq))" by simp
  from filter_address_after_send [OF assms(1,2,3), of rnd]
  obtain usr where usr: "filter (\<lambda>u. email u = e) db' = [usr]"
    and code: "confirmation_code usr = make_password d (uuid4 rnd) (salt rnd)"
    unfolding db' by blast
  from assms(5) have "filter (\<lambda>u. email u = e) (run d db' evs) = filter (\<lambda>u. email u = e) db'"
    by (rule run_keeps_address)
  with usr have "get_object_or_404 (run d db' evs) (\<lambda>u. email u = e) = Inr usr"
    by (simp add: get_object_or_404_single)
  then have "get_jwt_token d now (run d db' evs) rq' =
               (if check_password d c (make_password d (uuid4 rnd) (salt rnd))
                then Inr (Response (Dict [(''token'', AccessToken_for_user d usr now)]) 200)
                else Inr (Response (Dict [(''confirmation_code'', ''Wrong confirmation code'')])
                       400),
                run d db' evs)"
    by (simp add: get_jwt_token_valid [OF assms(6,7,8)] code)
  with usr code have "\<exists>usr. filter (\<lambda>u. email u = e) db' = [usr]
          \<and> confirmation_code usr = make_password d (uuid4 rnd) (salt rnd)
          \<and> get_jwt_token d now (run d db' evs) rq' =
               (if check_password d c (make_password d (uuid4 rnd) (salt rnd))
                then Inr (Response (Dict [(''token'', AccessToken_for_user d usr now)]) 200)
                else Inr (Response (Dict [(''confirmation_code'', ''Wrong confirmation code'')])
                       400),
                run d db' evs)"
    by blast
  with r sent show ?thesis by (intro conjI)
qed


theorem authentication_flow_witness:
  "SendCodeSerializer demo_deps (req_data demo_send) = Inr [(''email'', ''ann@yamdb.ru'')]
   \<and> length (filter (\<lambda>u. email u = ''ann@yamdb.ru'') [demo_bob]) \<le> 1
   \<and> send_confirmation_code demo_deps demo_rand [demo_bob] demo_send
       = (Inr (Response (Str ''Code was sent to ann@yamdb.ru, please check'') 200),
          [demo_bob, \<lparr>user_id = 3, username = [], email = ''ann@yamdb.ru'',
                      confirmation_code = ''na$ed0c''\<rparr>],
          [\<lparr>subject = ''Confirmation code on Yamdb.ru'',
            message = ''Your confirmation code: c0de'',
            from_email = ''Yamdb.ru <admin@yamdb.ru>'',
            recipient_list = [''ann@yamdb.ru'']\<rparr>])
   \<and> \<not> sends_to demo_deps ''ann@yamdb.ru'' (GetToken 5 demo_wrong)
   \<and> \<not> sends_to demo_deps ''ann@yamdb.ru'' (SendCode demo_rand demo_send_bob)
   \<and> CheckConfirmationCodeSerializer demo_deps (req_data demo_token)
       = Inr [(''email'', ''ann@yamdb.ru''), (''confirmation_code'', ''c0de'')]
   \<and> get_jwt_token demo_deps 2
         (run demo_deps
            [demo_bob, \<lparr>user_id = 3, username = [], email = ''ann@yamdb.ru'',
                        confirmation_code = ''na$ed0c''\<rparr>]
            [GetToken 5 demo_wrong, SendCode demo_rand demo_send_bob])
         demo_token
       = (Inr (Response (Dict [(''token'', ''ann@yamdb.ru:tt'')]) 200),
          run demo_deps
            [demo_bob, \<lparr>user_id = 3, username = [], email = ''ann@yamdb.ru'',
                        confirmation_code = ''na$ed0c''\<rparr>]
            [GetToken 5 demo_wrong, SendCode demo_rand demo_send_bob])"
proof -
  let ?ann = "\<lparr>user_id = 3, username = [], email = ''ann@yamdb.ru'',
               confirmation_code = ''na$ed0c''\<rparr>"
  let ?evs = "[GetToken 5 demo_wrong, SendCode demo_rand demo_send_bob]"
  have p1: "SendCodeSerializer demo_deps (req_data demo_send) = Inr [(''email'', ''ann@yamdb.ru'')]"
    by (simp add: demo_deps_def demo_send_def demo_required_def)
  have p2: "map_of [(''email'', ''ann@yamdb.ru'')] ''email'' = Some ''ann@yamdb.ru''"
    by simp
  have len: "length (filter (\<lambda>u. email u = ''ann@yamdb.ru'') [demo_bob]) \<le> 1"
    by simp
  have h: "make_password demo_deps ''c0de'' (salt demo_rand) = ''na$ed0c''"
    by (simp add: demo_deps_def demo_rand_def)
  have m: "EMAIL_ADMIN demo_deps = ''admin@yamdb.ru''" "uuid4 demo_rand = ''c0de''"
    by (simp_all add: demo_deps_def demo_rand_def)
  have a: "send_confirmation_code demo_deps demo_rand [demo_bob] demo_send
       = (Inr (Response (Str ''Code was sent to ann@yamdb.ru, please check'') 200),
          [demo_bob, ?ann],
          [\<lparr>subject = ''Confirmation code on Yamdb.ru'',
            message = ''Your confirmation code: c0de'',
            from_email = ''Yamdb.ru <admin@yamdb.ru>'',
            recipient_list = [''ann@yamdb.ru'']\<rparr>])"
    by (simp add: send_confirmation_code_valid [OF p1 p2] h m exists_email_def create_user_def
        update_confirmation_code_def fresh_id_def demo_bob_def)
  have s1: "\<not> sends_to demo_deps ''ann@yamdb.ru'' (GetToken 5 demo_wrong)"
    by simp
  have s2: "\<not> sends_to demo_deps ''ann@yamdb.ru'' (SendCode demo_rand demo_send_bob)"
    by (simp add: send_address_def demo_deps_def demo_send_bob_def demo_required_def)
  have evs: "\<forall>ev \<in> set ?evs. \<not> sends_to demo_deps ''ann@yamdb.ru'' ev"
    using s1 s2 by simp
  have t: "CheckConfirmationCodeSerializer demo_deps (req_data demo_token)
       = Inr [(''email'', ''ann@yamdb.ru''), (''confirmation_code'', ''c0de'')]"
    by (simp add: demo_deps_def demo_token_def demo_required_def)
  have e: "map_of [(''email'', ''ann@yamdb.ru''), (''confirmation_code'', ''c0de'')] ''email''
             = Some ''ann@yamdb.ru''"
    by simp
  have c: "map_of (CheckConfirmationCodeSerializer_data demo_deps
              [(''email'', ''ann@yamdb.ru''), (''confirmation_code'', ''c0de'')]) ''confirmation_code''
             = Some ''c0de''"
    by (simp add: demo_deps_def)
  have ok: "check_password demo_deps ''c0de'' ''na$ed0c''"
    by (simp add: demo_deps_def)
  have tok: "AccessToken_for_user demo_deps ?ann 2 = ''ann@yamdb.ru:tt''"
    by (simp add: demo_deps_def numeral_2_eq_2)
  have fl: "filter (\<lambda>u. email u = ''ann@yamdb.ru'') [demo_bob, ?ann] = [?ann]"
    by (simp add: demo_bob_def)
  from authentication_flow [OF p1 p2 len a evs t e c, of 2]
  obtain usr where u: "filter (\<lambda>u. email u = ''ann@yamdb.ru'') [demo_bob, ?ann] = [usr]"
    and g: "get_jwt_token demo_deps 2 (run demo_deps [demo_bob, ?ann] ?evs) demo_token =
               (if check_password demo_deps ''c0de''
                     (make_password demo_deps (uuid4 demo_rand) (salt demo_rand))
                then Inr (Response (Dict [(''token'', AccessToken_for_user demo_deps usr 2)]) 200)
                else Inr (Response (Dict [(''confirmation_code'', ''Wrong confirmation code'')])
                       400),
                run demo_deps [demo_bob, ?ann] ?evs)"
    by blast
  from u have "usr = ?ann" unfolding fl by simp
  with g have z: "get_jwt_token demo_deps 2 (run demo_deps [demo_bob, ?ann] ?evs) demo_token
       = (Inr (Response (Dict [(''token'', ''ann@yamdb.ru:tt'')]) 200),
          run demo_deps [demo_bob, ?ann] ?evs)"
    by (simp only: m h ok tok if_True)
  show ?thesis by (intro conjI p1 len a s1 s2 t z)
qed

subsection \<open>The /me endpoints\<close>

text \<open>
  Claim C7. A request of the anonymous user to \<open>APIUser.get\<close> or \<open>APIUser.patch\<close> is
  answered with status 401 (and the table is untouched). For an authenticated user whose
  row is in the table, \<open>APIUser.patch\<close> answers 200 with the data of the updated user, and
  stores the updated row, when the serializer's \<open>is_valid()\<close> is true; it answers 400 with
  the serializer's errors, and stores nothing, when \<open>is_valid()\<close> is false.
\<close>

theorem me_endpoints:
  "(req_user rq = AnonymousUser \<longrightarrow>
      APIUser_get d db rq = Inr (Response (Str ''You are not authenticated'') 401)
      \<and> APIUser_patch d db rq = (Inr (Response (Str ''You are not authenticated'') 401), db))
   \<and> (req_user rq = Authenticated uid \<and> filter (\<lambda>u. user_id u = uid) db = [usr] \<longrightarrow>
        (\<forall>s. is_valid (UserSerializer_validate d usr) (new_serializer (req_data rq)) = (True, s)
           \<longrightarrow> (\<exists>vd. validated_data_attr s = Some vd
                 \<and> APIUser_patch d db rq =
                     (Inr (Response (Dict (UserSerializer_data d (UserSerializer_update d usr vd)))
                            200),
                      save_user db (UserSerializer_update d usr vd))))
        \<and> (\<forall>s. is_valid (UserSerializer_validate d usr) (new_serializer (req_data rq)) = (False, s)
           \<longrightarrow> APIUser_patch d db rq = (Inr (Response (Dict (errors_attr s)) 400), db)))"
proof (intro conjI impI allI)
  assume "req_user rq = AnonymousUser"
  then show "APIUser_get d db rq = Inr (Response (Str ''You are not authenticated'') 401)"
    by (simp add: APIUser_get_def)
next
  assume "req_user rq = AnonymousUser"
  then show "APIUser_patch d db rq = (Inr (Response (Str ''You are not authenticated'') 401), db)"
    by (simp add: APIUser_patch_def)
next
  fix s
  assume a: "req_user rq = Authenticated uid \<and> filter (\<lambda>u. user_id u = uid) db = [usr]"
    and v: "is_valid (UserSerializer_validate d usr) (new_serializer (req_data rq)) = (True, s)"
  from a have g: "get_object_or_404 db (\<lambda>u. Some (user_id u) = request_user_id (req_user rq))
                    = Inr usr"
    by (simp add: get_object_or_404_single)
  from v obtain vd where vd: "validated_data_attr s = Some vd"
    by (auto simp: is_valid_new split: sum.splits)
  with a g v have "APIUser_patch d db rq =
                     (Inr (Response (Dict (UserSerializer_data d (UserSerializer_update d usr vd)))
                            200),
                      save_user db (UserSerializer_update d usr vd))"
    by (simp add: APIUser_patch_def validated_data_def Let_def)
  with vd show "\<exists>vd. validated_data_attr s = Some vd
                 \<and> APIUser_patch d db rq =
                     (Inr (Response (Dict (UserSerializer_data d (UserSerializer_update d usr vd)))
                            200),
                      save_user db (UserSerializer_update d usr vd))"
    by blast
next
  fix s
  assume a: "req_user rq = Authenticated uid \<and> filter (\<lambda>u. user_id u = uid) db = [usr]"
    and v: "is_valid (UserSerializer_validate d usr) (new_serializer (req_data rq)) = (False, s)"
  from a have g: "get_object_or_404 db (\<lambda>u. Some (user_id u) = request_user_id (req_user rq))
                    = Inr usr"
    by (simp add: get_object_or_404_single)
  with a v show "APIUser_patch d db rq = (Inr (Response (Dict (errors_attr s)) 400), db)"
    by (simp add: APIUser_patch_def)
qed


theorem me_endpoints_witness:
  "req_user demo_empty = AnonymousUser
   \<and> APIUser_get demo_deps [demo_ann, demo_bob] demo_empty
       = Inr (Response (Str ''You are not authenticated'') 401)
   \<and> APIUser_patch demo_deps [demo_ann, demo_bob] demo_empty
       = (Inr (Response (Str ''You are not authenticated'') 401), [demo_ann, demo_bob])
   \<and> req_user demo_patch = Authenticated 2
   \<and> filter (\<lambda>u. user_id u = 2) [demo_ann, demo_bob] = [demo_bob]
   \<and> is_valid (UserSerializer_validate demo_deps demo_bob) (new_serializer (req_data demo_patch))
       = (True, \<lparr>initial_data = [(''username'', ''robert'')],
                 validated_data_attr = Some [(''username'', ''robert'')], errors_attr = []\<rparr>)
   \<and> APIUser_patch demo_deps [demo_ann, demo_bob] demo_patch
       = (Inr (Response (Dict [(''username'', ''robert''), (''email'', ''bob@yamdb.ru'')]) 200),
          [demo_ann, demo_bob\<lparr>username := ''robert''\<rparr>])
   \<and> req_user demo_patch_blank = Authenticated 2
   \<and> is_valid (UserSerializer_validate demo_deps demo_bob)
         (new_serializer (req_data demo_patch_blank))
       = (False, \<lparr>initial_data = [(''username'', [])], validated_data_attr = Some [],
                  errors_attr = [(''username'', ''This field may not be blank.'')]\<rparr>)
   \<and> APIUser_patch demo_deps [demo_ann, demo_bob] demo_patch_blank
       = (Inr (Response (Dict [(''username'', ''This field may not be blank.'')]) 400),
          [demo_ann, demo_bob])"
proof -
  let ?db = "[demo_ann, demo_bob]"
  let ?s1 = "\<lparr>initial_data = [(''username'', ''robert'')],
              validated_data_attr = Some [(''username'', ''robert'')], errors_attr = []\<rparr>"
  let ?s2 = "\<lparr>initial_data = [(''username'', [])], validated_data_attr = Some [],
              errors_attr = [(''username'', ''This field may not be blank.'')]\<rparr>"
  have u0: "req_user demo_empty = AnonymousUser" by (simp add: demo_empty_def)
  have u1: "req_user demo_patch = Authenticated 2" by (simp add: demo_patch_def)
  have u2: "req_user demo_patch_blank = Authenticated 2" by (simp add: demo_patch_blank_def)
  have f: "filter (\<lambda>u. user_id u = 2) ?db = [demo_bob]"
    by (simp add: demo_ann_def demo_bob_def)
  have v1: "is_valid (UserSerializer_validate demo_deps demo_bob)
              (new_serializer (req_data demo_patch)) = (True, ?s1)"
    by (simp add: is_valid_new demo_deps_def demo_validate_user_def demo_patch_def)
  have v2: "is_valid (UserSerializer_validate demo_deps demo_bob)
              (new_serializer (req_data demo_patch_blank)) = (False, ?s2)"
    by (simp add: is_valid_new demo_deps_def demo_validate_user_def demo_patch_blank_def)
  note anon = me_endpoints [of demo_empty demo_deps ?db 2 demo_bob, THEN conjunct1, rule_format, OF u0]
  note auth1 = me_endpoints [of demo_patch demo_deps ?db 2 demo_bob, THEN conjunct2, rule_format,
      OF conjI [OF u1 f]]
  note auth2 = me_endpoints [of demo_patch_blank demo_deps ?db 2 demo_bob, THEN conjunct2,
      rule_format, OF conjI [OF u2 f]]
  have a0: "APIUser_get demo_deps ?db demo_empty
       = Inr (Response (Str ''You are not authenticated'') 401)"
    by (rule anon [THEN conjunct1])
  have a1: "APIUser_patch demo_deps ?db demo_empty
       = (Inr (Response (Str ''You are not authenticated'') 401), ?db)"
    by (rule anon [THEN conjunct2])
  from auth1 [THEN conjunct1, rule_format, OF v1]
  obtain vd where "validated_data_attr ?s1 = Some vd"
    and p: "APIUser_patch demo_deps ?db demo_patch =
              (Inr (Response (Dict (UserSerializer_data demo_deps
                                      (UserSerializer_update demo_deps demo_bob vd))) 200),
               save_user ?db (UserSerializer_update demo_deps demo_bob vd))"
    by blast
  then have vd: "vd = [(''username'', ''robert'')]" by simp
  have upd: "UserSerializer_update demo_deps demo_bob [(''username'', ''robert'')]
               = demo_bob\<lparr>username := ''robert''\<rparr>"
    by (simp add: demo_deps_def demo_update_def)
  have dat: "UserSerializer_data demo_deps (demo_bob\<lparr>username := ''robert''\<rparr>)
               = [(''username'', ''robert''), (''email'', ''bob@yamdb.ru'')]"
    by (simp add: demo_deps_def demo_bob_def)
  have sav: "save_user ?db (demo_bob\<lparr>username := ''robert''\<rparr>)
               = [demo_ann, demo_bob\<lparr>username := ''robert''\<rparr>]"
    by (simp add: save_user_def demo_ann_def demo_bob_def)
  have b1: "APIUser_patch demo_deps ?db demo_patch
       = (Inr (Response (Dict [(''username'', ''robert''), (''email'', ''bob@yamdb.ru'')]) 200),
          [demo_ann, demo_bob\<lparr>username := ''robert''\<rparr>])"
    unfolding p vd upd dat sav by (rule refl)
  have b2: "APIUser_patch demo_deps ?db demo_patch_blank
       = (Inr (Response (Dict [(''username'', ''This field may not be blank.'')]) 400), ?db)"
    using auth2 [THEN conjunct2, rule_format, OF v2] by simp
  show ?thesis by (intro conjI u0 a0 a1 u1 f v1 b1 u2 v2 b2)
qed

subsection \<open>Comments belong to a review of a title\<close>

lemma filter_key_absent:
  "k \<notin> set (map f xs) \<Longrightarrow> filter (\<lambda>y. f y = k) xs = []"
  by (induction xs) auto












subsection \<open>Which actions each viewset serves\<close>

lemma actions_ModelViewSet:
  "actions ModelViewSet = [Create, Retrieve, Update, PartialUpdate, Destroy, List]"
  by (simp add: actions_def ModelViewSet_def default_http_method_names_def)

lemma actions_CategoryViewSet: "actions CategoryViewSet = [Create, Destroy, List]"
  by (simp add: actions_def CategoryViewSet_def CreateDeleteListViewSet_def)

lemma actions_GenreViewSet: "actions GenreViewSet = [Create, Destroy, List]"
  by (simp add: actions_def GenreViewSet_def CreateDeleteListViewSet_def)

text \<open>
  Claim C5 says that each of the six resources supports create, retrieve/list, update and
  delete. \<open>CategoryViewSet\<close> is built from the create, destroy and list mixins only and
  admits only the methods get, post and delete: categories cannot be updated.
\<close>

theorem category_update_counterexample:
  "\<not> supports Categories Update \<and> \<not> supports Categories PartialUpdate
   \<and> \<not> supports Genres Update \<and> \<not> supports Genres PartialUpdate"
  by (simp add: supports_def actions_CategoryViewSet actions_GenreViewSet)

text \<open>
  Claim C5, amended. Titles, reviews, comments and users are served by full model
  viewsets: create, retrieve, list, update, partial update and delete. Categories and
  genres support create, list and delete only; they have neither update nor retrieve.
\<close>

theorem crud_by_resource:
  "(\<forall>a. supports Titles a) \<and> (\<forall>a. supports Reviews a)
   \<and> (\<forall>a. supports Comments a) \<and> (\<forall>a. supports Users a)
   \<and> (\<forall>a. supports Categories a = (a = Create \<or> a = List \<or> a = Destroy))
   \<and> (\<forall>a. supports Genres a = (a = Create \<or> a = List \<or> a = Destroy))"
proof -
  have all: "a \<in> set (actions ModelViewSet)" for a
    unfolding actions_ModelViewSet by (cases a) simp_all
  have t: "supports Titles a" and r: "supports Reviews a"
    and c: "supports Comments a" and u: "supports Users a" for a
    using all [of a]
    by (simp_all add: supports_def TitleViewSet_def ReviewViewSet_def CommentViewSet_def
        UserViewSet_def)
  have k: "supports Categories a = (a = Create \<or> a = List \<or> a = Destroy)" for a
    by (auto simp: supports_def actions_CategoryViewSet)
  have g: "supports Genres a = (a = Create \<or> a = List \<or> a = Destroy)" for a
    by (auto simp: supports_def actions_GenreViewSet)
  show ?thesis by (intro conjI allI t r c u k g)
qed

subsection \<open>The rating of a title\<close>

lemma join_rows_fst: "row \<in> set (join_rows t rs) \<Longrightarrow> fst row = t"
  by (auto simp: join_rows_def split: list.splits)

lemma join_rows_nonempty: "join_rows t rs \<noteq> []"
  by (simp add: join_rows_def split: list.splits)

lemma filter_join_rows:
  "filter (\<lambda>row. fst row = t) (join_rows a rs) = (if a = t then join_rows a rs else [])"
  by (auto simp: filter_empty_conv filter_id_conv dest: join_rows_fst)

lemma left_outer_join_Cons:
  "left_outer_join (a # ts) rs = join_rows a rs @ left_outer_join ts rs"
  by (simp add: left_outer_join_def)

lemma filter_left_outer_join_absent:
  "t \<notin> set ts \<Longrightarrow> filter (\<lambda>row. fst row = t) (left_outer_join ts rs) = []"
  by (induction ts) (auto simp: left_outer_join_def filter_join_rows)

lemma filter_left_outer_join:
  "distinct ts \<Longrightarrow> t \<in> set ts \<Longrightarrow>
     filter (\<lambda>row. fst row = t) (left_outer_join ts rs) = join_rows t rs"
proof (induction ts)
  case Nil
  then show ?case by simp
next
  case (Cons a ts)
  show ?case
  proof (cases "a = t")
    case True
    with Cons.prems have "t \<notin> set ts" by simp
    then have "filter (\<lambda>row. fst row = t) (left_outer_join ts rs) = []"
      by (rule filter_left_outer_join_absent)
    with True show ?thesis by (simp add: left_outer_join_Cons filter_join_rows)
  next
    case False
    with Cons.prems have "distinct ts" "t \<in> set ts" by simp_all
    then have "filter (\<lambda>row. fst row = t) (left_outer_join ts rs) = join_rows t rs"
      by (rule Cons.IH)
    with False show ?thesis by (simp add: left_outer_join_Cons filter_join_rows)
  qed
qed

lemma set_fst_left_outer_join: "set (map fst (left_outer_join ts rs)) = set ts"
proof (induction ts)
  case Nil
  then show ?case by (simp add: left_outer_join_def)
next
  case (Cons a ts)
  obtain row rows where r: "join_rows a rs = row # rows"
    using join_rows_nonempty [of a rs] by (cases "join_rows a rs") simp_all
  have "fst ` set (join_rows a rs) = {a}"
  proof
    show "fst ` set (join_rows a rs) \<subseteq> {a}" by (auto dest: join_rows_fst)
    have in_rows: "row \<in> set (join_rows a rs)" by (simp add: r)
    then have "fst row = a" by (rule join_rows_fst)
    with in_rows have "a \<in> fst ` set (join_rows a rs)" by (metis imageI)
    then show "{a} \<subseteq> fst ` set (join_rows a rs)" by simp
  qed
  with Cons.IH show ?case by (simp add: left_outer_join_Cons image_Un)
qed

lemma map_filter_Some: "List.map_filter (\<lambda>v. v) (map (\<lambda>x. Some (f x)) xs) = map f xs"
  by (induction xs) simp_all

lemma Avg_join_rows:
  "Avg fl (map (\<lambda>row. map_option score (snd row)) (join_rows t rs))
     = map_option fl (mean_score rs (title_id t))"
proof (cases "filter (\<lambda>r. review_title_id r = title_id t) rs")
  case Nil
  then show ?thesis
    by (simp add: join_rows_def Avg_def mean_score_def)
next
  case (Cons m ms)
  have "map (\<lambda>row. map_option score (snd row)) (join_rows t rs) = map (\<lambda>r. Some (score r)) (m # ms)"
    by (simp add: join_rows_def Cons)
  then have "List.map_filter (\<lambda>v. v) (map (\<lambda>row. map_option score (snd row)) (join_rows t rs))
               = map score (m # ms)"
    by (simp only: map_filter_Some)
  then show ?thesis
    by (simp add: Avg_def mean_score_def Cons)
qed

lemma annotate_rating_eq:
  assumes "distinct ts"
  shows "annotate_rating fl ts rs
           = map (\<lambda>t. (t, map_option fl (mean_score rs (title_id t)))) (remdups (map fst (left_outer_join ts rs)))"
proof -
  have "(case (k, filter (\<lambda>row. fst row = k) (left_outer_join ts rs)) of
           (t, rows) \<Rightarrow> (t, Avg fl (map (\<lambda>row. map_option score (snd row)) rows)))
          = (k, map_option fl (mean_score rs (title_id k)))"
    if "k \<in> set (remdups (map fst (left_outer_join ts rs)))" for k
  proof -
    from that have "k \<in> set ts" by (simp add: set_fst_left_outer_join [simplified])
    with assms have "filter (\<lambda>row. fst row = k) (left_outer_join ts rs) = join_rows k rs"
      by (rule filter_left_outer_join)
    then show ?thesis by (simp add: Avg_join_rows)
  qed
  then show ?thesis
    by (simp add: annotate_rating_def group_by_def)
qed

lemma queryset_rows:
  assumes "distinct ts"
  shows "set (TitleViewSet_queryset fl ts rs) = (\<lambda>t. (t, map_option fl (mean_score rs (title_id t)))) ` set ts"
    and "length (TitleViewSet_queryset fl ts rs) = length ts"
    and "sorted (map (\<lambda>row. title_id (fst row)) (TitleViewSet_queryset fl ts rs))"
proof -
  have s: "fst ` set (left_outer_join ts rs) = set ts"
    using set_fst_left_outer_join [of ts rs] by simp
  show "set (TitleViewSet_queryset fl ts rs) = (\<lambda>t. (t, map_option fl (mean_score rs (title_id t)))) ` set ts"
    by (simp add: TitleViewSet_queryset_def order_by_id_def annotate_rating_eq [OF assms] s)
  have "length (remdups (map fst (left_outer_join ts rs))) = card (set ts)"
    by (simp add: length_remdups_card_conv s)
  also have "\<dots> = length ts" using assms by (rule distinct_card)
  finally show "length (TitleViewSet_queryset fl ts rs) = length ts"
    by (simp add: TitleViewSet_queryset_def order_by_id_def annotate_rating_eq [OF assms])
  show "sorted (map (\<lambda>row. title_id (fst row)) (TitleViewSet_queryset fl ts rs))"
    by (simp add: TitleViewSet_queryset_def order_by_id_def)
qed


lemma sorted_page:
  "sorted (map f xs) \<Longrightarrow> sorted (map f (take n (drop k (filter P xs))))"
proof -
  assume "sorted (map f xs)"
  then have "sorted (map f (filter P xs))" by (rule sorted_filter)
  then have "sorted (drop k (map f (filter P xs)))" by (rule sorted_wrt_drop)
  then have "sorted (take n (drop k (map f (filter P xs))))" by (rule sorted_wrt_take)
  then show ?thesis by (simp only: take_map drop_map)
qed

subsection \<open>The nearest double\<close>

text \<open>
  \<open>nearest_double\<close> rounds: its result is within a relative error of \<open>2^-53\<close> of its
  argument, and it returns its argument unchanged when that is an integer of less than
  54 bits times a power of two.
\<close>

lemma pow2_powi: "pow2 e = 2 powi e"
  by (simp add: pow2_def power_int_def inverse_eq_divide power_one_over)

lemma pow2_pos: "0 < pow2 e"
  by (simp add: pow2_powi)

lemma pow2_add: "pow2 (a + b) = pow2 a * pow2 b"
  by (simp add: pow2_powi power_int_add)

lemma pow2_mono: "a \<le> b \<Longrightarrow> pow2 a \<le> pow2 b"
  by (simp add: pow2_powi power_int_increasing)

lemma pow2_nat: "pow2 (int n) = 2 ^ n"
  by (simp add: pow2_def)

lemma binade_bounds:
  assumes "0 < x"
  shows "pow2 (binade x) \<le> x \<and> x < pow2 (binade x + 1)"
proof -
  obtain p q where pq: "quotient_of x = (p, q)" by (cases "quotient_of x")
  then have q: "0 < q" by (rule quotient_of_denom_pos)
  from pq have x: "x = of_int p / of_int q" by (rule quotient_of_div)
  from assms q have p: "0 < p" by (simp add: x zero_less_divide_iff)
  define a where "a = bitlen p"
  define b where "b = bitlen q"
  from bitlen_bounds [OF p] have pa: "2 ^ nat (a - 1) \<le> p" "p < 2 ^ nat a" by (simp_all add: a_def)
  from bitlen_bounds [OF q] have qb: "2 ^ nat (b - 1) \<le> q" "q < 2 ^ nat b" by (simp_all add: b_def)
  from p pa(2) have a1: "1 \<le> a" by (cases "a \<le> 0") auto
  from q qb(2) have b1: "1 \<le> b" by (cases "b \<le> 0") auto
  have rp: "pow2 (a - 1) \<le> of_int p" "of_int p < pow2 a"
  proof -
    from a1 have e1: "pow2 (a - 1) = of_int (2 ^ nat (a - 1))" by (simp add: pow2_def)
    from a1 have e2: "pow2 a = of_int (2 ^ nat a)" by (simp add: pow2_def)
    from pa(1) show "pow2 (a - 1) \<le> of_int p" unfolding e1 by (simp only: of_int_le_iff)
    from pa(2) show "of_int p < pow2 a" unfolding e2 by (simp only: of_int_less_iff)
  qed
  have rq: "pow2 (b - 1) \<le> of_int q" "of_int q < pow2 b"
  proof -
    from b1 have e1: "pow2 (b - 1) = of_int (2 ^ nat (b - 1))" by (simp add: pow2_def)
    from b1 have e2: "pow2 b = of_int (2 ^ nat b)" by (simp add: pow2_def)
    from qb(1) show "pow2 (b - 1) \<le> of_int q" unfolding e1 by (simp only: of_int_le_iff)
    from qb(2) show "of_int q < pow2 b" unfolding e2 by (simp only: of_int_less_iff)
  qed
  have qpos: "(0::rat) < of_int q" using q by simp
  have up: "x < pow2 (a - b + 1)"
  proof -
    have "pow2 (a - b + 1) * pow2 (b - 1) = pow2 a"
      by (simp add: pow2_add [symmetric])
    then have "of_int p < pow2 (a - b + 1) * pow2 (b - 1)" using rp(2) by simp
    also have "\<dots> \<le> pow2 (a - b + 1) * of_int q"
      using rq(1) pow2_pos [of "a - b + 1"] by (simp add: mult_left_mono)
    finally show ?thesis using qpos by (simp add: x pos_divide_less_eq)
  qed
  have low: "pow2 (a - b - 1) < x"
  proof -
    have "pow2 (a - b - 1) * pow2 b = pow2 (a - 1)"
      by (simp add: pow2_add [symmetric])
    have "pow2 (a - b - 1) * of_int q < pow2 (a - b - 1) * pow2 b"
      using rq(2) pow2_pos [of "a - b - 1"] by (simp add: mult_strict_left_mono)
    also have "\<dots> = pow2 (a - 1)" by (simp add: pow2_add [symmetric])
    also have "\<dots> \<le> of_int p" by (rule rp(1))
    finally show ?thesis using qpos by (simp add: x pos_less_divide_eq)
  qed
  have bin: "binade x = (if pow2 (a - b) \<le> x then a - b else a - b - 1)"
    by (simp add: binade_def pq a_def b_def Let_def)
  show ?thesis
  proof (cases "pow2 (a - b) \<le> x")
    case True
    with up bin show ?thesis by simp
  next
    case False
    with low bin show ?thesis by simp
  qed
qed

lemma round_half_even_error: "\<bar>of_int (round_half_even y) - y\<bar> \<le> 1 / 2"
proof -
  have "of_int \<lfloor>y\<rfloor> \<le> y" "y < of_int \<lfloor>y\<rfloor> + 1" by linarith+
  then show ?thesis
    by (auto simp: round_half_even_def Let_def abs_le_iff)
qed

lemma nearest_double_pos_error:
  assumes "0 < a"
  shows "\<bar>of_int (round_half_even (a / pow2 (binade a - 52))) * pow2 (binade a - 52) - a\<bar>
           \<le> a / 2 ^ 53"
proof -
  define u where "u = pow2 (binade a - 52)"
  define m where "m = round_half_even (a / u)"
  have u: "0 < u" by (simp add: u_def pow2_pos)
  have "\<bar>of_int m * u - a\<bar> = \<bar>of_int m - a / u\<bar> * u"
  proof -
    have "of_int m * u - a = (of_int m - a / u) * u" using u by (simp add: field_simps)
    then show ?thesis using u by (simp add: abs_mult)
  qed
  also have "\<dots> \<le> 1 / 2 * u"
    using round_half_even_error [of "a / u"] u unfolding m_def by (simp add: mult_right_mono)
  also have "1 / 2 * u = pow2 (binade a) / 2 ^ 53"
  proof -
    have "pow2 (binade a) = pow2 (binade a - 52) * pow2 52"
      by (simp add: pow2_add [symmetric])
    also have "pow2 52 = 2 ^ 52" using pow2_nat [of 52] by simp
    finally show ?thesis by (simp add: u_def)
  qed
  also have "\<dots> \<le> a / 2 ^ 53"
    using binade_bounds [OF assms] by (simp add: divide_right_mono)
  finally show ?thesis by (simp add: u_def m_def)
qed

lemma nearest_double_error: "\<bar>nearest_double x - x\<bar> \<le> \<bar>x\<bar> / 2 ^ 53"
proof (cases "x = 0")
  case True
  then show ?thesis by (simp add: nearest_double_def)
next
  case False
  then have a: "0 < \<bar>x\<bar>" by simp
  define r where "r = of_int (round_half_even (\<bar>x\<bar> / pow2 (binade \<bar>x\<bar> - 52)))
                        * pow2 (binade \<bar>x\<bar> - 52)"
  have nd: "nearest_double x = sgn x * r"
    using False by (simp add: nearest_double_def Let_def r_def mult.assoc)
  have "nearest_double x - x = sgn x * (r - \<bar>x\<bar>)"
    by (simp add: nd right_diff_distrib mult_sgn_abs)
  then have "\<bar>nearest_double x - x\<bar> = \<bar>r - \<bar>x\<bar>\<bar>"
    using False by (simp add: abs_mult abs_sgn_eq)
  also have "\<dots> \<le> \<bar>x\<bar> / 2 ^ 53"
    unfolding r_def by (rule nearest_double_pos_error [OF a])
  finally show ?thesis .
qed


lemma round_half_even_of_int: "round_half_even (of_int k) = k"
  by (simp add: round_half_even_def)

lemma nearest_double_exact:
  assumes "\<bar>n\<bar> < 2 ^ 53"
  shows "nearest_double (of_int n * pow2 j) = of_int n * pow2 j"
proof (cases "n = 0")
  case True
  then show ?thesis by (simp add: nearest_double_def)
next
  case False
  define x where "x = of_int n * pow2 j"
  define e where "e = binade \<bar>x\<bar>"
  define u where "u = pow2 (e - 52)"
  have ax: "\<bar>x\<bar> = of_int \<bar>n\<bar> * pow2 j"
    using pow2_pos [of j] by (simp add: x_def abs_mult)
  from False have npos: "(0::rat) < of_int \<bar>n\<bar>" by simp
  then have xpos: "0 < \<bar>x\<bar>" unfolding ax using pow2_pos [of j] by (simp only: mult_pos_pos)
  then have x0: "x \<noteq> 0" by simp
  from binade_bounds [OF xpos] have low: "pow2 e \<le> \<bar>x\<bar>" by (simp add: e_def)
  have d: "0 \<le> j - e + 52"
  proof (rule ccontr)
    assume "\<not> 0 \<le> j - e + 52"
    then have "j + 53 \<le> e" by simp
    then have le: "pow2 (j + 53) \<le> pow2 e" by (rule pow2_mono)
    from assms have "(of_int \<bar>n\<bar> :: rat) < of_int (2 ^ 53)" by (simp only: of_int_less_iff)
    then have "(of_int \<bar>n\<bar> :: rat) < pow2 53" using pow2_nat [of 53] by simp
    then have "of_int \<bar>n\<bar> * pow2 j < pow2 53 * pow2 j"
      using pow2_pos [of j] by (simp add: mult_strict_right_mono)
    also have "\<dots> = pow2 (j + 53)" by (simp add: pow2_add [symmetric] add.commute)
    finally have "\<bar>x\<bar> < pow2 (j + 53)" by (simp add: ax)
    with le low show False by simp
  qed
  have upos: "0 < u" by (simp add: u_def pow2_pos)
  have "pow2 j = pow2 (j - e + 52) * u"
    by (simp add: u_def pow2_add [symmetric])
  also have "pow2 (j - e + 52) = of_int (2 ^ nat (j - e + 52))"
    using d by (simp add: pow2_def)
  finally have pj: "pow2 j = of_int (2 ^ nat (j - e + 52)) * u" .
  have q: "\<bar>x\<bar> / u = of_int (\<bar>n\<bar> * 2 ^ nat (j - e + 52))"
    using upos by (simp add: ax pj)
  have m: "of_int (round_half_even (\<bar>x\<bar> / u)) * u = \<bar>x\<bar>"
    unfolding q round_half_even_of_int using upos by (simp add: ax pj)
  have "nearest_double x = sgn x * (of_int (round_half_even (\<bar>x\<bar> / u)) * u)"
    using x0 by (simp add: nearest_double_def Let_def u_def e_def mult.assoc)
  also have "\<dots> = x" unfolding m by (simp add: mult_sgn_abs)
  finally show ?thesis by (simp add: x_def)
qed

lemma nearest_double_of_int: "\<bar>n\<bar> < 2 ^ 53 \<Longrightarrow> nearest_double (of_int n) = of_int n"
  using nearest_double_exact [of n 0] by (simp add: pow2_def)

subsection \<open>The rating is a float\<close>

lemma nearest_double_four_thirds:
  "nearest_double (4 / 3) = 6004799503160661 / 4503599627370496"
  by code_simp

text \<open>
  Claim C8 says that the annotated rating equals the arithmetic mean of the scores of the
  title's reviews. The rating is a double-precision float, and a mean that no double
  represents comes back rounded: for one title with the scores 1, 1 and 2 the mean is
  4/3, and the rating is the double 1.3333333333333333, that is
  6004799503160661 / 2^52, which is not 4/3.
\<close>

theorem rating_not_exact_mean_counterexample:
  "TitleViewSet_queryset nearest_double [\<lparr>title_id = 12, title_name = ''Mirror''\<rparr>] demo_thirds
     = [(\<lparr>title_id = 12, title_name = ''Mirror''\<rparr>,
         Some (6004799503160661 / 4503599627370496))]
   \<and> mean_score demo_thirds 12 = Some (4 / 3)
   \<and> Some (6004799503160661 / 4503599627370496) \<noteq> mean_score demo_thirds 12"
proof -
  let ?mirror = "\<lparr>title_id = 12, title_name = ''Mirror''\<rparr>"
  have j: "left_outer_join [?mirror] demo_thirds
      = [(?mirror, Some \<lparr>review_id = 1, review_title_id = 12, review_author = 1, score = 1\<rparr>),
         (?mirror, Some \<lparr>review_id = 2, review_title_id = 12, review_author = 2, score = 1\<rparr>),
         (?mirror, Some \<lparr>review_id = 3, review_title_id = 12, review_author = 3, score = 2\<rparr>)]"
    by (simp add: left_outer_join_def join_rows_def demo_thirds_def)
  have a: "annotate_rating nearest_double [?mirror] demo_thirds
      = [(?mirror, Some (6004799503160661 / 4503599627370496))]"
    by (simp add: annotate_rating_def group_by_def j Avg_def nearest_double_four_thirds)
  have q: "TitleViewSet_queryset nearest_double [\<lparr>title_id = 12, title_name = ''Mirror''\<rparr>]
        demo_thirds
     = [(\<lparr>title_id = 12, title_name = ''Mirror''\<rparr>,
         Some (6004799503160661 / 4503599627370496))]"
    by (simp add: TitleViewSet_queryset_def order_by_id_def a)
  have m: "mean_score demo_thirds 12 = Some (4 / 3)"
    by (simp add: mean_score_def demo_thirds_def)
  have n: "Some (6004799503160661 / 4503599627370496) \<noteq> mean_score demo_thirds 12"
    unfolding m by simp
  show ?thesis by (intro conjI q m n)
qed

text \<open>
  Claim C8, amended. With primary keys of titles being unique: every row that
  \<open>TitleViewSet\<close> returns (any page of the filtered queryset, and the whole queryset) is a
  stored title together with a rating that is the arithmetic mean of the scores of that
  title's reviews as the database returns it, converted to a double-precision float (so
  it is the mean itself only where the conversion is exact), and null when the title has
  no review; every title occurs once in the queryset; and the rows are in ascending
  order of id.
\<close>

theorem title_rating_and_order:
  assumes "distinct (map title_id ts)"
  shows "(\<forall>row \<in> set (TitleViewSet_page fl P k n ts rs).
            fst row \<in> set ts \<and> snd row = map_option fl (mean_score rs (title_id (fst row))))
       \<and> sorted (map (\<lambda>row. title_id (fst row)) (TitleViewSet_page fl P k n ts rs))
       \<and> fst ` set (TitleViewSet_queryset fl ts rs) = set ts
       \<and> length (TitleViewSet_queryset fl ts rs) = length ts
       \<and> TitleViewSet_page fl (\<lambda>t. True) 0 (length ts) ts rs = TitleViewSet_queryset fl ts rs"
proof -
  from assms have d: "distinct ts" by (simp add: distinct_map)
  note q = queryset_rows [OF d, of fl rs]
  have sub: "set (TitleViewSet_page fl P k n ts rs) \<subseteq> set (TitleViewSet_queryset fl ts rs)"
  proof
    fix row assume "row \<in> set (TitleViewSet_page fl P k n ts rs)"
    then have "row \<in> set (drop k (filter (\<lambda>row. P (fst row)) (TitleViewSet_queryset fl ts rs)))"
      unfolding TitleViewSet_page_def by (rule in_set_takeD)
    then have "row \<in> set (filter (\<lambda>row. P (fst row)) (TitleViewSet_queryset fl ts rs))"
      by (rule in_set_dropD)
    then show "row \<in> set (TitleViewSet_queryset fl ts rs)" by simp
  qed
  have 1: "\<forall>row \<in> set (TitleViewSet_page fl P k n ts rs).
            fst row \<in> set ts \<and> snd row = map_option fl (mean_score rs (title_id (fst row)))"
  proof
    fix row assume "row \<in> set (TitleViewSet_page fl P k n ts rs)"
    with sub have "row \<in> set (TitleViewSet_queryset fl ts rs)" by blast
    then obtain t where "t \<in> set ts" "row = (t, map_option fl (mean_score rs (title_id t)))"
      unfolding q(1) by blast
    then show "fst row \<in> set ts \<and> snd row = map_option fl (mean_score rs (title_id (fst row)))" by simp
  qed
  have 2: "sorted (map (\<lambda>row. title_id (fst row)) (TitleViewSet_page fl P k n ts rs))"
    unfolding TitleViewSet_page_def using q(3) by (rule sorted_page)
  have 3: "fst ` set (TitleViewSet_queryset fl ts rs) = set ts"
    unfolding q(1) by (simp add: image_image)
  have 5: "TitleViewSet_page fl (\<lambda>t. True) 0 (length ts) ts rs = TitleViewSet_queryset fl ts rs"
    by (simp add: TitleViewSet_page_def q(2))
  from 1 2 3 q(2) 5 show ?thesis by (intro conjI)
qed


lemma nearest_double_exact_demo:
  "nearest_double (17 / 2) = 17 / 2" "nearest_double 4 = 4"
  by code_simp+

theorem title_rating_and_order_witness:
  "distinct (map title_id demo_titles)
   \<and> TitleViewSet_queryset nearest_double demo_titles demo_reviews
       = [(\<lparr>title_id = 10, title_name = ''Stalker''\<rparr>, Some (17 / 2)),
          (\<lparr>title_id = 11, title_name = ''Solaris''\<rparr>, Some 4),
          (\<lparr>title_id = 12, title_name = ''Mirror''\<rparr>, None)]
   \<and> (\<lparr>title_id = 10, title_name = ''Stalker''\<rparr>, Some (17 / 2))
       \<in> set (TitleViewSet_page nearest_double (\<lambda>t. True) 0 3 demo_titles demo_reviews)
   \<and> map_option nearest_double (mean_score demo_reviews 10) = Some (17 / 2)
   \<and> (\<lparr>title_id = 12, title_name = ''Mirror''\<rparr>, None)
       \<in> set (TitleViewSet_page nearest_double (\<lambda>t. True) 0 3 demo_titles demo_reviews)
   \<and> map_option nearest_double (mean_score demo_reviews 12) = None
   \<and> sorted (map (\<lambda>row. title_id (fst row))
         (TitleViewSet_page nearest_double (\<lambda>t. True) 0 3 demo_titles demo_reviews))"
proof -
  let ?stalker = "\<lparr>title_id = 10, title_name = ''Stalker''\<rparr>"
  let ?mirror = "\<lparr>title_id = 12, title_name = ''Mirror''\<rparr>"
  have d: "distinct (map title_id demo_titles)"
    by (simp add: demo_titles_def)
  have len: "length demo_titles = 3"
    by (simp add: demo_titles_def)
  have j: "left_outer_join demo_titles demo_reviews
      = [(\<lparr>title_id = 11, title_name = ''Solaris''\<rparr>,
            Some \<lparr>review_id = 2, review_title_id = 11, review_author = 2, score = 4\<rparr>),
         (?stalker, Some \<lparr>review_id = 1, review_title_id = 10, review_author = 1, score = 7\<rparr>),
         (?stalker, Some \<lparr>review_id = 3, review_title_id = 10, review_author = 2, score = 10\<rparr>),
         (?mirror, None)]"
    by (simp add: left_outer_join_def join_rows_def demo_titles_def demo_reviews_def)
  have a: "annotate_rating nearest_double demo_titles demo_reviews
      = [(\<lparr>title_id = 11, title_name = ''Solaris''\<rparr>, Some 4),
         (?stalker, Some (17 / 2)), (?mirror, None)]"
    by (simp add: annotate_rating_def group_by_def j Avg_def nearest_double_exact_demo)
  have q: "TitleViewSet_queryset nearest_double demo_titles demo_reviews
       = [(?stalker, Some (17 / 2)),
          (\<lparr>title_id = 11, title_name = ''Solaris''\<rparr>, Some 4),
          (?mirror, None)]"
    by (simp add: TitleViewSet_queryset_def order_by_id_def a)
  note T = title_rating_and_order [OF d, of nearest_double "\<lambda>t. True" 0 3 demo_reviews]
  from T have p: "TitleViewSet_page nearest_double (\<lambda>t. True) 0 3 demo_titles demo_reviews
                    = TitleViewSet_queryset nearest_double demo_titles demo_reviews"
    by (simp only: len)
  have m1: "(?stalker, Some (17 / 2))
       \<in> set (TitleViewSet_page nearest_double (\<lambda>t. True) 0 3 demo_titles demo_reviews)"
    unfolding p q by simp
  have m2: "(?mirror, None)
       \<in> set (TitleViewSet_page nearest_double (\<lambda>t. True) 0 3 demo_titles demo_reviews)"
    unfolding p q by simp
  from T have all:
    "\<forall>row \<in> set (TitleViewSet_page nearest_double (\<lambda>t. True) 0 3 demo_titles demo_reviews).
       fst row \<in> set demo_titles
       \<and> snd row = map_option nearest_double (mean_score demo_reviews (title_id (fst row)))"
    by (rule conjunct1)
  from all m1 have "snd (?stalker, Some (17 / 2) :: rat option)
      = map_option nearest_double
          (mean_score demo_reviews (title_id (fst (?stalker, Some (17 / 2) :: rat option))))"
    by blast
  then have r1: "map_option nearest_double (mean_score demo_reviews 10) = Some (17 / 2)" by simp
  from all m2 have "snd (?mirror, None :: rat option)
      = map_option nearest_double
          (mean_score demo_reviews (title_id (fst (?mirror, None :: rat option))))"
    by blast
  then have r2: "map_option nearest_double (mean_score demo_reviews 12) = None" by simp
  from T have s: "sorted (map (\<lambda>row. title_id (fst row))
         (TitleViewSet_page nearest_double (\<lambda>t. True) 0 3 demo_titles demo_reviews))"
    by (rule conjunct2 [THEN conjunct1])
  show ?thesis by (intro conjI d q m1 r1 m2 r2 s)
qed

subsection \<open>The two views keep addresses unique\<close>

lemma unique_email_rows:
  "distinct (map email db) \<Longrightarrow> length (filter (\<lambda>u. email u = e) db) \<le> 1"
proof (induction db)
  case Nil
  then show ?case by simp
next
  case (Cons u db)
  show ?case
  proof (cases "email u = e")
    case True
    with Cons.prems have "e \<notin> set (map email db)" by auto
    then have "filter (\<lambda>u. email u = e) db = []" by (rule filter_key_absent)
    with True show ?thesis by simp
  next
    case False
    with Cons show ?thesis by simp
  qed
qed

lemma send_keeps_unique_emails:
  assumes "distinct (map email db)"
  shows "distinct (map email (fst (snd (send_confirmation_code d rnd db rq))))"
proof (cases "send_address d rq")
  case None
  with assms show ?thesis by (simp add: send_confirmation_code_invalid)
next
  case (Some e)
  then obtain vd where vd: "SendCodeSerializer d (req_data rq) = Inr vd" "map_of vd ''email'' = Some e"
    by (auto simp: send_address_def split: sum.splits)
  have rows: "map email (update_confirmation_code xs e h) = map email xs" for xs h
    using update_confirmation_code_rows [of xs e h] by simp
  show ?thesis
  proof (cases "exists_email db e")
    case True
    with assms show ?thesis
      by (simp add: send_confirmation_code_valid [OF vd] rows)
  next
    case False
    then have "e \<notin> set (map email db)" by (auto simp: exists_email_iff)
    with assms False show ?thesis
      by (simp add: send_confirmation_code_valid [OF vd] rows create_user_def)
  qed
qed

lemma run_keeps_unique_emails:
  "distinct (map email db) \<Longrightarrow> distinct (map email (run d db evs))"
proof (induction evs arbitrary: db)
  case Nil
  then show ?case by simp
next
  case (Cons ev evs)
  show ?case
  proof (cases ev)
    case (SendCode rnd rq)
    from Cons.prems have "distinct (map email (fst (snd (send_confirmation_code d rnd db rq))))"
      by (rule send_keeps_unique_emails)
    then show ?thesis unfolding SendCode by (simp add: Cons.IH)
  next
    case (GetToken now rq)
    with Cons show ?thesis by (simp add: get_jwt_token_db)
  qed
qed

end
